theory Spec2Isabelle
  imports Complex_Main "HOL-Library.Extended_Nat"
begin

section \<open>JavaScript strings and numbers used by the KML pipeline\<close>

text \<open>
  Strings are lists of code units; a \<^typ>\<open>char\<close> stands for a code unit below 256.
  \<open>String.prototype.trim\<close> and the regular expression class \<open>\s\<close> use the same
  set (WhiteSpace and LineTerminator of ECMAScript); below 256 these are TAB, LF, VT, FF, CR,
  SPACE and NBSP.
\<close>

definition isWhiteSpace :: "char \<Rightarrow> bool" where
  "isWhiteSpace c = ((of_char c :: nat) \<in> {9, 10, 11, 12, 13, 32, 160})"

text \<open>\<open>s.trim()\<close>: white space removed at both ends.\<close>

definition trim :: "string \<Rightarrow> string" where
  "trim s = rev (dropWhile isWhiteSpace (rev (dropWhile isWhiteSpace s)))"

text \<open>
  \<open>s.split(/\s+/)\<close>: the text before the first run of white space, then the split of what
  follows the run. A string without white space is its own single piece (also the empty
  string: \<open>"".split(/\s+/)\<close> is \<open>[""]\<close>), and white space at either end gives an
  empty piece there.
\<close>

function splitWhiteSpace :: "string \<Rightarrow> string list" where
  "splitWhiteSpace s =
     (let piece = takeWhile (\<lambda>c. \<not> isWhiteSpace c) s;
          rest = dropWhile (\<lambda>c. \<not> isWhiteSpace c) s
      in if rest = [] then [piece]
         else piece # splitWhiteSpace (dropWhile isWhiteSpace rest))"
  by pat_completeness auto
termination
proof (relation "measure length", goal_cases)
  case 1
  show ?case by simp
next
  case (2 s piece rest)
  obtain c r where r: "rest = c # r" using 2(3) by (cases rest) auto
  have "\<not> \<not> isWhiteSpace (hd rest)"
    unfolding 2(2) using 2(3) unfolding 2(2) by (rule hd_dropWhile)
  hence "isWhiteSpace c" using r by simp
  hence "length (dropWhile isWhiteSpace rest) \<le> length r"
    using r by (simp add: length_dropWhile_le)
  moreover have "length rest \<le> length s"
    using 2(2) by (simp add: length_dropWhile_le)
  ultimately show ?case using r by simp
qed

declare splitWhiteSpace.simps [simp del]

text \<open>\<open>s.split(',')\<close>: always at least one piece.\<close>

fun splitOn :: "char \<Rightarrow> string \<Rightarrow> string list" where
  "splitOn sep [] = [[]]"
| "splitOn sep (c # cs) =
     (if c = sep then [] # splitOn sep cs
      else (case splitOn sep cs of
              [] \<Rightarrow> [[c]]
            | t # ts \<Rightarrow> (c # t) # ts))"

text \<open>Reading \<open>xs[i]\<close> of an array: \<open>undefined\<close> (here \<open>None\<close>) out of range.\<close>

definition at_index :: "'a list \<Rightarrow> nat \<Rightarrow> 'a option" where
  "at_index xs i = (if i < length xs then Some (xs ! i) else None)"

text \<open>
  A JavaScript number is an IEEE double. \<open>parseFloat\<close> returns \<open>NaN\<close>, an infinity, or
  the double nearest to the mathematical value of the decimal literal it read. The model keeps
  the sign of the literal and that mathematical value, exactly, instead of the rounded double:
  the double is a function of the two, so equal model values are equal doubles.
  The flag is \<open>True\<close> for a negative sign.
\<close>

datatype js_number = NaN | Infinity bool | Finite bool rat

definition isDecimalDigit :: "char \<Rightarrow> bool" where
  "isDecimalDigit c = (48 \<le> (of_char c :: nat) \<and> (of_char c :: nat) \<le> 57)"

definition digitValue :: "char \<Rightarrow> nat" where
  "digitValue c = of_char c - 48"

definition decimalValue :: "string \<Rightarrow> nat" where
  "decimalValue ds = foldl (\<lambda>a c. 10 * a + digitValue c) 0 ds"

text \<open>An optional sign in front of a literal or of an exponent.\<close>

definition takeSign :: "string \<Rightarrow> bool \<times> string" where
  "takeSign s =
     (case s of
        [] \<Rightarrow> (False, s)
      | c # r \<Rightarrow> if c = CHR ''-'' then (True, r)
                 else if c = CHR ''+'' then (False, r)
                 else (False, s))"

text \<open>
  The power of ten of an ExponentPart at the head of the text: \<open>e\<close> or \<open>E\<close>, an optional
  sign and at least one digit. Anything else is no exponent and is not read.
\<close>

definition exponentPart :: "string \<Rightarrow> int" where
  "exponentPart s =
     (case s of
        [] \<Rightarrow> 0
      | c # r \<Rightarrow>
          if c = CHR ''e'' \<or> c = CHR ''E'' then
            (let (negative, d) = takeSign r;
                 ds = takeWhile isDecimalDigit d
             in if ds = [] then 0
                else if negative then - int (decimalValue ds)
                else int (decimalValue ds))
          else 0)"

definition scale10 :: "rat \<Rightarrow> int \<Rightarrow> rat" where
  "scale10 m e = (if 0 \<le> e then m * 10 ^ nat e else m / 10 ^ nat (- e))"

text \<open>
  \<open>parseFloat\<close> on a string: leading white space is skipped, then the longest prefix that
  is a StrDecimalLiteral is read: an optional sign, then \<open>Infinity\<close>, or digits with an
  optional fraction, or a dot with digits, each with an optional exponent. Without such a
  prefix the result is \<open>NaN\<close>.
\<close>

definition parseFloatString :: "string \<Rightarrow> js_number" where
  "parseFloatString s =
     (let (negative, u) = takeSign (dropWhile isWhiteSpace s)
      in if take 8 u = ''Infinity'' then Infinity negative
         else
           (let ip = takeWhile isDecimalDigit u;
                r1 = dropWhile isDecimalDigit u;
                (fp, r2) = (case r1 of
                              [] \<Rightarrow> ([], r1)
                            | c # r \<Rightarrow>
                                if c = CHR ''.''
                                then (takeWhile isDecimalDigit r, dropWhile isDecimalDigit r)
                                else ([], r1))
            in if ip = [] \<and> fp = [] then NaN
               else Finite negative
                      (scale10 (of_nat (decimalValue (ip @ fp)) / 10 ^ length fp)
                         (exponentPart r2))))"

text \<open>
  \<open>parseFloat\<close> applies ToString to its argument first; \<open>undefined\<close> becomes the
  string \<open>"undefined"\<close>.
\<close>

definition parseFloat :: "string option \<Rightarrow> js_number" where
  "parseFloat a =
     parseFloatString (case a of None \<Rightarrow> ''undefined'' | Some s \<Rightarrow> s)"

section \<open>Coordinate parsing\<close>

text \<open>
  \<open>parseCoordinates\<close>: the guard \<open>!coordinateString || !coordinateString.trim()\<close> is
  true for the empty string and for a string whose trimmed form is empty. The callback
  destructures the first two pieces of \<open>coord.split(',')\<close>; a missing piece is
  \<open>undefined\<close>.
\<close>

definition parseCoordinates :: "string \<Rightarrow> js_number list list" where
  "parseCoordinates coordinateString =
     (if coordinateString = [] \<or> trim coordinateString = [] then []
      else
        (let coordinateStringArray = splitWhiteSpace (trim coordinateString)
         in map (\<lambda>coord.
                   (let parts = splitOn CHR '','' coord;
                        longitude = at_index parts 0;
                        latitude = at_index parts 1
                    in [parseFloat longitude, parseFloat latitude]))
              coordinateStringArray))"

section \<open>Validation results\<close>

text \<open>
  A schema's \<open>safeParse\<close> returns \<open>{success: false, error}\<close> or
  \<open>{success: true, data}\<close> and does not throw. The error is a ZodError: a list of
  issues, each with a code and the path of keys and array indices to the offending value.
\<close>

datatype path_element = Key string | Index nat

datatype issue_code = invalid_type | invalid_enum_value

datatype zod_issue = ZodIssue issue_code "path_element list"

type_synonym zod_error = "zod_issue list"

type_synonym 'a safe_parse_result = "zod_error + 'a"

text \<open>A value thrown by a library call or a rejected promise.\<close>

datatype js_error = JsError string

section \<open>The KML data model\<close>

text \<open>
  Modelled from the spec: the types \<open>KMLPlacemark\<close>, \<open>KMLFeature\<close>,
  \<open>KMLFeatureCollection\<close>, \<open>ObservationZonesFeature\<close> and
  \<open>ObservationZonesFeatureCollection\<close> of \<open>types/nationalAvalancheCenter\<close>, which
  the source imports. Sections 4.2 and 6 give their shape: placemarks under
  \<open>kml.Document.Folder.Placemark\<close>, each with a \<open>name\<close> and an optional
  \<open>Polygon\<close> or \<open>MultiGeometry\<close> holding an outer boundary linear ring with a
  coordinate text; the code reads exactly these paths. The text of a name may be absent
  (the code guards it with \<open>||\<close>). Fields named \<open>_text\<close>, \<open>type\<close>, \<open>id\<close> and
  \<open>name\<close> carry the name of their owner, since a record field is a constant.
\<close>

record KMLCoordinates =
  coordinates_text :: string

record KMLLinearRing =
  coordinates :: KMLCoordinates

record KMLBoundary =
  LinearRing :: KMLLinearRing

record KMLPolygon =
  outerBoundaryIs :: KMLBoundary

record KMLMultiGeometry =
  MultiGeometry_Polygon :: KMLPolygon

record KMLName =
  name_text :: "string option"

record KMLPlacemark =
  name :: KMLName
  Polygon :: "KMLPolygon option"
  MultiGeometry :: "KMLMultiGeometry option"

record KMLFolder =
  Placemark :: "KMLPlacemark list"

record KMLDocument =
  Folder :: KMLFolder

record KMLRoot =
  Document :: KMLDocument

record KMLFile =
  kml :: KMLRoot

record PolygonGeometry =
  geometry_type :: string
  geometry_coordinates :: "js_number list list list"

record KMLProperties =
  properties_name :: string

record 'p Feature =
  feature_type :: string
  geometry :: PolygonGeometry
  feature_id :: int
  properties :: 'p

type_synonym KMLFeature = "KMLProperties Feature"

record 'f FeatureCollection =
  collection_type :: string
  features :: "'f list"

type_synonym KMLFeatureCollection = "KMLFeature FeatureCollection"

text \<open>The candidate properties \<open>{name, center_id}\<close> handed to the properties schema.\<close>

record 'c BaseProperties =
  base_name :: string
  base_center_id :: 'c

text \<open>
  What the functions hand to their collaborators, in call order: the logger and the error
  tracker. Message texts that embed \<open>JSON.stringify(error.format())\<close> carry the error.
\<close>

datatype kml_event =
    LogDebug string
  | LogErrorInvalidKmlFile zod_error
  | CaptureException zod_error string
  | LogErrorInvalidProperties nat zod_error
  | LogErrorParsingKml js_error

section \<open>The KML pipeline\<close>

definition getCoordinateString :: "KMLPlacemark \<Rightarrow> string" where
  "getCoordinateString placemark =
     (case Polygon placemark of
        Some polygon \<Rightarrow>
          coordinates_text (coordinates (LinearRing (outerBoundaryIs polygon)))
      | None \<Rightarrow>
          (case MultiGeometry placemark of
             Some multi \<Rightarrow>
               coordinates_text
                 (coordinates (LinearRing (outerBoundaryIs (MultiGeometry_Polygon multi))))
           | None \<Rightarrow> []))"

text \<open>\<open>placemark.name._text || 'Unknown KML Zone'\<close>: the default for a falsy text.\<close>

definition placemarkName :: "KMLPlacemark \<Rightarrow> string" where
  "placemarkName placemark =
     (case name_text (name placemark) of
        None \<Rightarrow> ''Unknown KML Zone''
      | Some t \<Rightarrow> if t = [] then ''Unknown KML Zone'' else t)"

text \<open>The callback of \<open>placemarks.map\<close> in \<open>parseKmlData\<close>.\<close>

definition placemarkToFeature :: "nat \<Rightarrow> KMLPlacemark \<Rightarrow> KMLFeature" where
  "placemarkToFeature index placemark =
     (let coordinateString = getCoordinateString placemark;
          coordinates = parseCoordinates coordinateString
      in \<lparr>feature_type = ''Feature'',
          geometry = \<lparr>geometry_type = ''Polygon'', geometry_coordinates = [coordinates]\<rparr>,
          feature_id = int index,
          properties = \<lparr>properties_name = placemarkName placemark\<rparr>\<rparr>)"

definition emptyFeatureCollection :: "'f FeatureCollection" where
  "emptyFeatureCollection = \<lparr>collection_type = ''FeatureCollection'', features = []\<rparr>"

text \<open>
  \<open>parseKmlData\<close>. The library calls \<open>xml2json\<close> and \<open>JSON.parse\<close> are parameters;
  either may throw, and the function has no handler, so their error leaves it (\<open>Inl\<close>).
  \<open>KMLFileSchema\<close> is declared outside the source and is a parameter too: its
  \<open>safeParse\<close> on the parsed tree. The result comes with the events of the call.
\<close>

definition parseKmlData ::
  "(string \<Rightarrow> js_error + string) \<Rightarrow> (string \<Rightarrow> js_error + 'j) \<Rightarrow>
   ('j \<Rightarrow> KMLFile safe_parse_result) \<Rightarrow> string \<Rightarrow> string \<Rightarrow>
   kml_event list \<times> (js_error + KMLFeatureCollection)" where
  "parseKmlData xml2json JSON_parse KMLFileSchema response url =
     (case xml2json response of
        Inl thrown \<Rightarrow> ([], Inl thrown)
      | Inr kmlResponse \<Rightarrow>
          (case JSON_parse kmlResponse of
             Inl thrown \<Rightarrow> ([], Inl thrown)
           | Inr tree \<Rightarrow>
               (case KMLFileSchema tree of
                  Inl error \<Rightarrow>
                    ([LogErrorInvalidKmlFile error, CaptureException error url],
                     Inr emptyFeatureCollection)
                | Inr kmlData \<Rightarrow>
                    (let placemarks = Placemark (Folder (Document (kml kmlData)));
                         features = map (\<lambda>(index, placemark). placemarkToFeature index placemark)
                                      (List.enumerate 0 placemarks)
                     in ([], Inr \<lparr>collection_type = ''FeatureCollection'',
                                  features = features\<rparr>)))))"

text \<open>
  The callback of \<open>kmlCollection.features.map\<close> in
  \<open>transformKmlFeaturesToObservationZones\<close>: \<open>undefined\<close> (\<open>None\<close>) and an error
  record when the properties fail validation, else the feature with the identifier
  \<open>-100000 - i\<close>. \<open>observationZonesPropertiesSchema\<close> is declared outside the source:
  its \<open>safeParse\<close> is a parameter.
\<close>

definition transformFeature ::
  "('c BaseProperties \<Rightarrow> 'p safe_parse_result) \<Rightarrow> 'c \<Rightarrow> nat \<Rightarrow> KMLFeature \<Rightarrow>
   kml_event list \<times> 'p Feature option" where
  "transformFeature observationZonesPropertiesSchema center_id i feature =
     (let baseProperties =
            \<lparr>base_name = properties_name (properties feature), base_center_id = center_id\<rparr>
      in case observationZonesPropertiesSchema baseProperties of
           Inl error \<Rightarrow> ([LogErrorInvalidProperties i error], None)
         | Inr fullProperties \<Rightarrow>
             (let numericId = - 100000 - int i
              in ([], Some \<lparr>feature_type = ''Feature'',
                            geometry = geometry feature,
                            feature_id = numericId,
                            properties = fullProperties\<rparr>)))"

definition transformKmlFeaturesToObservationZones ::
  "('c BaseProperties \<Rightarrow> 'p safe_parse_result) \<Rightarrow> KMLFeatureCollection \<Rightarrow> 'c \<Rightarrow>
   kml_event list \<times> 'p Feature FeatureCollection" where
  "transformKmlFeaturesToObservationZones observationZonesPropertiesSchema kmlCollection center_id =
     (let transformed =
            map (\<lambda>(i, feature). transformFeature observationZonesPropertiesSchema center_id i feature)
              (List.enumerate 0 (features kmlCollection));
          transformedFeatures = map snd transformed;
          observationZones = map the (filter (\<lambda>feature. feature \<noteq> None) transformedFeatures)
      in (concat (map fst transformed),
          \<lparr>collection_type = ''FeatureCollection'', features = observationZones\<rparr>))"

text \<open>
  \<open>fetchAlternateObservationZones\<close>. The outcome of \<open>await safeFetch(...)\<close> is an
  argument: a rejection there is outside the \<open>try\<close> block and rejects the whole call.
  Inside the block anything thrown is caught, logged and replaced by the empty collection.
\<close>

definition fetchAlternateObservationZones ::
  "(string \<Rightarrow> js_error + string) \<Rightarrow> (string \<Rightarrow> js_error + 'j) \<Rightarrow>
   ('j \<Rightarrow> KMLFile safe_parse_result) \<Rightarrow> ('c BaseProperties \<Rightarrow> 'p safe_parse_result) \<Rightarrow>
   (js_error + string) \<Rightarrow> string \<Rightarrow> 'c \<Rightarrow>
   kml_event list \<times> (js_error + 'p Feature FeatureCollection)" where
  "fetchAlternateObservationZones xml2json JSON_parse KMLFileSchema observationZonesPropertiesSchema
       fetched url center_id =
     (case fetched of
        Inl rejected \<Rightarrow> ([LogDebug ''Fetching alternate observation zones''], Inl rejected)
      | Inr response \<Rightarrow>
          (case parseKmlData xml2json JSON_parse KMLFileSchema response url of
             (parseEvents, Inl error) \<Rightarrow>
               ([LogDebug ''Fetching alternate observation zones''] @ parseEvents
                  @ [LogErrorParsingKml error],
                Inr emptyFeatureCollection)
           | (parseEvents, Inr kmlFeatureCollection) \<Rightarrow>
               (case transformKmlFeaturesToObservationZones observationZonesPropertiesSchema
                       kmlFeatureCollection center_id of
                  (transformEvents, observationZones) \<Rightarrow>
                    ([LogDebug ''Fetching alternate observation zones''] @ parseEvents
                       @ transformEvents @ [LogDebug ''Fetched alternate observation zones''],
                     Inr observationZones))))"

section \<open>JSON values and the schema combinators of the forecast hook\<close>

text \<open>
  The body of a response after JSON decoding. An object is the list of its entries, keys
  distinct; reading a key that is absent gives \<open>undefined\<close>, here \<open>None\<close>. Numbers are
  as above, with magnitudes inside the range of a double.
\<close>

datatype json =
    JNull
  | JBool bool
  | JNumber js_number
  | JString string
  | JArray "json list"
  | JObject "(string \<times> json) list"

text \<open>
  A schema takes the value found (or \<open>None\<close>) and the path to it. \<open>z.string()\<close> and
  \<open>z.number()\<close> accept a value of their type and nothing else; \<open>z.number()\<close> refuses
  \<open>NaN\<close>.
\<close>

definition z_string :: "json option \<Rightarrow> path_element list \<Rightarrow> string safe_parse_result" where
  "z_string input path =
     (case input of
        Some (JString s) \<Rightarrow> Inr s
      | _ \<Rightarrow> Inl [ZodIssue invalid_type path])"

definition z_number :: "json option \<Rightarrow> path_element list \<Rightarrow> js_number safe_parse_result" where
  "z_number input path =
     (case input of
        Some (JNumber n) \<Rightarrow> if n = NaN then Inl [ZodIssue invalid_type path] else Inr n
      | _ \<Rightarrow> Inl [ZodIssue invalid_type path])"

text \<open>\<open>Boolean(input)\<close>, applied by \<open>z.coerce.boolean()\<close> before its check.\<close>

definition truthy :: "json option \<Rightarrow> bool" where
  "truthy input =
     (case input of
        None \<Rightarrow> False
      | Some JNull \<Rightarrow> False
      | Some (JBool b) \<Rightarrow> b
      | Some (JNumber n) \<Rightarrow>
          (case n of NaN \<Rightarrow> False | Infinity _ \<Rightarrow> True | Finite _ q \<Rightarrow> q \<noteq> 0)
      | Some (JString s) \<Rightarrow> s \<noteq> []
      | Some (JArray _) \<Rightarrow> True
      | Some (JObject _) \<Rightarrow> True)"

definition z_coerce_boolean :: "json option \<Rightarrow> path_element list \<Rightarrow> bool safe_parse_result" where
  "z_coerce_boolean input path = Inr (truthy input)"

text \<open>
  \<open>z.nativeEnum\<close> over string values: a value that is neither a string nor a number has
  the wrong type; a string or number outside the values is an invalid enum value.
\<close>

definition z_nativeEnum ::
  "string list \<Rightarrow> json option \<Rightarrow> path_element list \<Rightarrow> string safe_parse_result" where
  "z_nativeEnum enumValues input path =
     (case input of
        Some (JString s) \<Rightarrow>
          if s \<in> set enumValues then Inr s else Inl [ZodIssue invalid_enum_value path]
      | Some (JNumber n) \<Rightarrow>
          if n = NaN then Inl [ZodIssue invalid_type path]
          else Inl [ZodIssue invalid_enum_value path]
      | _ \<Rightarrow> Inl [ZodIssue invalid_type path])"

text \<open>\<open>schema.optional().nullable()\<close>: \<open>null\<close> and \<open>undefined\<close> pass as they are.\<close>

datatype 'a nullish = Undefined | Null | Value 'a

definition z_optional_nullable ::
  "(json option \<Rightarrow> path_element list \<Rightarrow> 'a safe_parse_result) \<Rightarrow>
   json option \<Rightarrow> path_element list \<Rightarrow> 'a nullish safe_parse_result" where
  "z_optional_nullable schema input path =
     (case input of
        None \<Rightarrow> Inr Undefined
      | Some JNull \<Rightarrow> Inr Null
      | Some _ \<Rightarrow>
          (case schema input path of
             Inl error \<Rightarrow> Inl error
           | Inr x \<Rightarrow> Inr (Value x)))"

text \<open>\<open>schema.transform(f)\<close>: the function runs on a valid value only.\<close>

definition z_transform :: "('a \<Rightarrow> 'b) \<Rightarrow> 'a safe_parse_result \<Rightarrow> 'b safe_parse_result" where
  "z_transform f result =
     (case result of
        Inl error \<Rightarrow> Inl error
      | Inr x \<Rightarrow> Inr (f x))"

text \<open>
  Objects and arrays validate every member and report all issues, in member order; the
  value is built when no member failed.
\<close>

definition merge :: "('a \<Rightarrow> 'b) safe_parse_result \<Rightarrow> 'a safe_parse_result \<Rightarrow> 'b safe_parse_result" where
  "merge built member =
     (case built of
        Inl issues \<Rightarrow>
          (case member of
             Inl further \<Rightarrow> Inl (issues @ further)
           | Inr _ \<Rightarrow> Inl issues)
      | Inr f \<Rightarrow>
          (case member of
             Inl further \<Rightarrow> Inl further
           | Inr x \<Rightarrow> Inr (f x)))"

text \<open>
  \<open>z.object(shape)\<close>: the value must be an object (not \<open>null\<close>, not an array); the shape
  then reads its keys, and keys outside the shape are dropped.
\<close>

definition z_object ::
  "json option \<Rightarrow> path_element list \<Rightarrow> ((string \<Rightarrow> json option) \<Rightarrow> 'a safe_parse_result) \<Rightarrow>
   'a safe_parse_result" where
  "z_object input path shape =
     (case input of
        Some (JObject entries) \<Rightarrow> shape (map_of entries)
      | _ \<Rightarrow> Inl [ZodIssue invalid_type path])"

definition field ::
  "(json option \<Rightarrow> path_element list \<Rightarrow> 'a safe_parse_result) \<Rightarrow>
   (string \<Rightarrow> json option) \<Rightarrow> path_element list \<Rightarrow> string \<Rightarrow> 'a safe_parse_result" where
  "field schema read path key = schema (read key) (path @ [Key key])"

definition z_array ::
  "(json option \<Rightarrow> path_element list \<Rightarrow> 'a safe_parse_result) \<Rightarrow>
   json option \<Rightarrow> path_element list \<Rightarrow> 'a list safe_parse_result" where
  "z_array element input path =
     (case input of
        Some (JArray items) \<Rightarrow>
          foldr (\<lambda>(i, item) rest.
                   merge (merge (Inr Cons) (element (Some item) (path @ [Index i]))) rest)
            (List.enumerate 0 items) (Inr [])
      | _ \<Rightarrow> Inl [ZodIssue invalid_type path])"

definition safeParse ::
  "(json option \<Rightarrow> path_element list \<Rightarrow> 'a safe_parse_result) \<Rightarrow> json \<Rightarrow> 'a safe_parse_result" where
  "safeParse schema data = schema (Some data) []"

section \<open>The forecast schema\<close>

text \<open>\<open>s.replace(' ', 'T')\<close> with a string pattern replaces the first occurrence only.\<close>

fun replaceFirst :: "char \<Rightarrow> char \<Rightarrow> string \<Rightarrow> string" where
  "replaceFirst a b [] = []"
| "replaceFirst a b (c # cs) = (if c = a then b # cs else c # replaceFirst a b cs)"

definition utcTimestamp :: "string \<Rightarrow> string" where
  "utcTimestamp s = replaceFirst CHR '' '' CHR ''T'' s @ ''+00:00''"

definition TimeOfDay :: "(string \<times> string) list" where
  "TimeOfDay =
     [('''', ''0-notspec''),
      (''Morning'', ''1-morning''),
      (''Mid-day'', ''1a-midday''),
      (''Afternoon'', ''2-afternoon''),
      (''Evening'', ''3-evening''),
      (''Night'', ''4-night'')]"

record Temperature =
  temperature_min :: js_number
  temperature_max :: js_number

record Forecaster =
  first_name :: string
  last_name :: string

record MountainWeatherForecast =
  forecast_id :: js_number
  creation_date :: string
  publish_date :: string
  day1_date :: string
  special_header_notes :: string
  synopsis_day1_day2 :: string
  extended_synopsis :: string
  afternoon :: bool

record Precipitation =
  precipitation_value :: string

record PrecipitationByLocation =
  location_name :: string
  location_order :: js_number
  precipitation :: "Precipitation list"

record SnowLevel =
  elevation :: js_number

record RidgelineWind =
  direction :: string
  speed :: string

record WeatherForecast =
  forecast_date :: string
  time_of_day :: string
  description :: string

record NWACWeatherForecast =
  five_thousand_foot_temperatures :: "Temperature list"
  forecaster :: Forecaster
  mountain_weather_forecast :: MountainWeatherForecast
  periods :: "string list"
  sub_periods :: "string list"
  precipitation_by_location :: "PrecipitationByLocation list"
  snow_levels :: "SnowLevel list"
  ridgeline_winds :: "RidgelineWind list"
  weather_forecasts :: "WeatherForecast list"

record Meta =
  meta_limit :: "js_number nullish"
  meta_next :: "string nullish"
  meta_offset :: "js_number nullish"
  meta_previous :: "string nullish"
  meta_total_count :: "js_number nullish"

record NWACWeatherForecastMeta =
  meta :: Meta
  objects :: NWACWeatherForecast

definition temperatureSchema ::
  "json option \<Rightarrow> path_element list \<Rightarrow> Temperature safe_parse_result" where
  "temperatureSchema input path =
     z_object input path (\<lambda>read.
       merge (merge (Inr (\<lambda>a b. \<lparr>temperature_min = a, temperature_max = b\<rparr>))
         (field z_number read path ''min''))
         (field z_number read path ''max''))"

definition forecasterSchema ::
  "json option \<Rightarrow> path_element list \<Rightarrow> Forecaster safe_parse_result" where
  "forecasterSchema input path =
     z_object input path (\<lambda>read.
       merge (merge (Inr (\<lambda>a b. \<lparr>first_name = a, last_name = b\<rparr>))
         (field z_string read path ''first_name''))
         (field z_string read path ''last_name''))"

definition mountainWeatherForecastSchema ::
  "json option \<Rightarrow> path_element list \<Rightarrow> MountainWeatherForecast safe_parse_result" where
  "mountainWeatherForecastSchema input path =
     z_object input path (\<lambda>read.
       merge (merge (merge (merge (merge (merge (merge (merge
         (Inr (\<lambda>a b c d e f g h.
                 \<lparr>forecast_id = a, creation_date = b, publish_date = c, day1_date = d,
                  special_header_notes = e, synopsis_day1_day2 = f, extended_synopsis = g,
                  afternoon = h\<rparr>))
         (field z_number read path ''id''))
         (z_transform utcTimestamp (field z_string read path ''creation_date'')))
         (z_transform utcTimestamp (field z_string read path ''publish_date'')))
         (field z_string read path ''day1_date''))
         (field z_string read path ''special_header_notes''))
         (field z_string read path ''synopsis_day1_day2''))
         (field z_string read path ''extended_synopsis''))
         (field z_coerce_boolean read path ''afternoon''))"

definition precipitationSchema ::
  "json option \<Rightarrow> path_element list \<Rightarrow> Precipitation safe_parse_result" where
  "precipitationSchema input path =
     z_object input path (\<lambda>read.
       merge (Inr (\<lambda>a. \<lparr>precipitation_value = a\<rparr>))
         (field z_string read path ''value''))"

definition precipitationByLocationSchema ::
  "json option \<Rightarrow> path_element list \<Rightarrow> PrecipitationByLocation safe_parse_result" where
  "precipitationByLocationSchema input path =
     z_object input path (\<lambda>read.
       merge (merge (merge
         (Inr (\<lambda>a b c. \<lparr>location_name = a, location_order = b, precipitation = c\<rparr>))
         (field z_string read path ''name''))
         (field z_number read path ''order''))
         (field (z_array precipitationSchema) read path ''precipitation''))"

definition snowLevelSchema ::
  "json option \<Rightarrow> path_element list \<Rightarrow> SnowLevel safe_parse_result" where
  "snowLevelSchema input path =
     z_object input path (\<lambda>read.
       merge (Inr (\<lambda>a. \<lparr>elevation = a\<rparr>))
         (field z_number read path ''elevation''))"

definition ridgelineWindSchema ::
  "json option \<Rightarrow> path_element list \<Rightarrow> RidgelineWind safe_parse_result" where
  "ridgelineWindSchema input path =
     z_object input path (\<lambda>read.
       merge (merge (Inr (\<lambda>a b. \<lparr>direction = a, speed = b\<rparr>))
         (field z_string read path ''direction''))
         (field z_string read path ''speed''))"

definition weatherForecastSchema ::
  "json option \<Rightarrow> path_element list \<Rightarrow> WeatherForecast safe_parse_result" where
  "weatherForecastSchema input path =
     z_object input path (\<lambda>read.
       merge (merge (merge
         (Inr (\<lambda>a b c. \<lparr>forecast_date = a, time_of_day = b, description = c\<rparr>))
         (field z_string read path ''date''))
         (field (z_nativeEnum (map snd TimeOfDay)) read path ''time_of_day''))
         (field z_string read path ''description''))"

definition nwacWeatherForecastSchema ::
  "json option \<Rightarrow> path_element list \<Rightarrow> NWACWeatherForecast safe_parse_result" where
  "nwacWeatherForecastSchema input path =
     z_object input path (\<lambda>read.
       merge (merge (merge (merge (merge (merge (merge (merge (merge
         (Inr (\<lambda>a b c d e f g h i.
                 \<lparr>five_thousand_foot_temperatures = a, forecaster = b,
                  mountain_weather_forecast = c, periods = d, sub_periods = e,
                  precipitation_by_location = f, snow_levels = g, ridgeline_winds = h,
                  weather_forecasts = i\<rparr>))
         (field (z_array temperatureSchema) read path ''five_thousand_foot_temperatures''))
         (field forecasterSchema read path ''forecaster''))
         (field mountainWeatherForecastSchema read path ''mountain_weather_forecast''))
         (field (z_array z_string) read path ''periods''))
         (field (z_array z_string) read path ''sub_periods''))
         (field (z_array precipitationByLocationSchema) read path ''precipitation_by_location''))
         (field (z_array snowLevelSchema) read path ''snow_levels''))
         (field (z_array ridgelineWindSchema) read path ''ridgeline_winds''))
         (field (z_array weatherForecastSchema) read path ''weather_forecasts''))"

definition metaSchema :: "json option \<Rightarrow> path_element list \<Rightarrow> Meta safe_parse_result" where
  "metaSchema input path =
     z_object input path (\<lambda>read.
       merge (merge (merge (merge (merge
         (Inr (\<lambda>a b c d e.
                 \<lparr>meta_limit = a, meta_next = b, meta_offset = c, meta_previous = d,
                  meta_total_count = e\<rparr>))
         (field (z_optional_nullable z_number) read path ''limit''))
         (field (z_optional_nullable z_string) read path ''next''))
         (field (z_optional_nullable z_number) read path ''offset''))
         (field (z_optional_nullable z_string) read path ''previous''))
         (field (z_optional_nullable z_number) read path ''total_count''))"

definition nwacWeatherForecastMetaSchema ::
  "json option \<Rightarrow> path_element list \<Rightarrow> NWACWeatherForecastMeta safe_parse_result" where
  "nwacWeatherForecastMetaSchema input path =
     z_object input path (\<lambda>read.
       merge (merge (Inr (\<lambda>a b. \<lparr>meta = a, objects = b\<rparr>))
         (field metaSchema read path ''meta''))
         (field nwacWeatherForecastSchema read path ''objects''))"

section \<open>Fetching the forecast\<close>

text \<open>
  The promise of \<open>fetchNWACWeatherForecast\<close> rejects with the error of \<open>axios.get\<close>
  or with the ZodError of the schema; the hook types its error as
  \<open>AxiosError | ZodError\<close>.
\<close>

datatype fetch_error = AxiosError js_error | ZodError zod_error

record 'z ForecastParams =
  zone_id :: 'z
  published_datetime :: string

datatype 'z forecast_event =
    LogWarnUnparsable string "'z ForecastParams" zod_error json
  | CaptureForecastException zod_error string

text \<open>
  \<open>axios.get\<close> is a parameter: the decoded body or the rejection for a URL and its query
  parameters. \<open>toDateTimeInterfaceATOM\<close> of \<open>utils/date\<close> is a parameter as well.
\<close>

definition fetchNWACWeatherForecast ::
  "(string \<Rightarrow> 'z ForecastParams \<Rightarrow> js_error + json) \<Rightarrow> ('t \<Rightarrow> string) \<Rightarrow>
   string \<Rightarrow> 'z \<Rightarrow> 't \<Rightarrow> 'z forecast_event list \<times> (fetch_error + NWACWeatherForecast)" where
  "fetchNWACWeatherForecast axios_get toDateTimeInterfaceATOM nwacHost zone requestedTime =
     (let url = nwacHost @ ''/api/v1/mountain-weather-region-forecast'';
          params = \<lparr>zone_id = zone, published_datetime = toDateTimeInterfaceATOM requestedTime\<rparr>
      in case axios_get url params of
           Inl rejected \<Rightarrow> ([], Inl (AxiosError rejected))
         | Inr data \<Rightarrow>
             (case safeParse nwacWeatherForecastMetaSchema data of
                Inl error \<Rightarrow>
                  ([LogWarnUnparsable url params error data, CaptureForecastException error url],
                   Inl (ZodError error))
              | Inr parsed \<Rightarrow> ([], Inr (objects parsed))))"

section \<open>Cache configurations\<close>

text \<open>
  The options the hooks pass to the query client, in milliseconds; \<open>\<infinity>\<close> is
  \<open>Infinity\<close> and \<open>None\<close> an option left out. The query library takes 0 for a
  \<open>staleTime\<close> left out and five minutes for a \<open>cacheTime\<close> left out.
  Only the two durations of each call are kept; the forecast prefetch passes neither.
\<close>

record QueryOptions =
  staleTime :: "enat option"
  cacheTime :: "enat option"

definition useNWACWeatherForecast_options :: QueryOptions where
  "useNWACWeatherForecast_options =
     \<lparr>staleTime = Some (60 * 60 * 1000), cacheTime = Some (24 * 60 * 60 * 1000)\<rparr>"

definition prefetchNWACWeatherForecast_options :: QueryOptions where
  "prefetchNWACWeatherForecast_options = \<lparr>staleTime = None, cacheTime = None\<rparr>"

definition useAlternateObservationZones_options :: QueryOptions where
  "useAlternateObservationZones_options = \<lparr>staleTime = None, cacheTime = Some \<infinity>\<rparr>"

definition prefetchAlternateObservationZones_options :: QueryOptions where
  "prefetchAlternateObservationZones_options =
     \<lparr>staleTime = Some (24 * 60 * 60 * 1000), cacheTime = Some \<infinity>\<rparr>"

definition stalenessHorizon :: "QueryOptions \<Rightarrow> enat" where
  "stalenessHorizon options = (case staleTime options of None \<Rightarrow> 0 | Some t \<Rightarrow> t)"

definition retentionHorizon :: "QueryOptions \<Rightarrow> enat" where
  "retentionHorizon options =
     (case cacheTime options of None \<Rightarrow> 5 * 60 * 1000 | Some t \<Rightarrow> t)"

text \<open>The option records above: every cache configuration the source builds.\<close>

definition cacheConfigurations :: "QueryOptions list" where
  "cacheConfigurations =
     [useNWACWeatherForecast_options, prefetchNWACWeatherForecast_options,
      useAlternateObservationZones_options, prefetchAlternateObservationZones_options]"

section \<open>The notions of the specification\<close>

text \<open>
  The words of section 4.3, for comparison with the code: the white-space separated tokens of
  a string are its maximal runs of characters that are not white space. There is none in an
  empty or blank string, and none of them is empty.
\<close>

function tokens :: "string \<Rightarrow> string list" where
  "tokens s =
     (let t = dropWhile isWhiteSpace s
      in if t = [] then []
         else takeWhile (\<lambda>c. \<not> isWhiteSpace c) t
                # tokens (dropWhile (\<lambda>c. \<not> isWhiteSpace c) t))"
  by pat_completeness auto
termination
proof (relation "measure length", goal_cases)
  case 1
  show ?case by simp
next
  case (2 s t)
  obtain c r where r: "t = c # r" using 2(2) by (cases t) auto
  have "\<not> isWhiteSpace (hd t)"
    unfolding 2(1) using 2(2) unfolding 2(1) by (rule hd_dropWhile)
  hence "\<not> isWhiteSpace c" using r by simp
  hence "length (dropWhile (\<lambda>c. \<not> isWhiteSpace c) t) \<le> length r"
    using r by (simp add: length_dropWhile_le)
  moreover have "length t \<le> length s"
    using 2(1) by (simp add: length_dropWhile_le)
  ultimately show ?case using r by simp
qed

declare tokens.simps [simp del]

text \<open>
  The pair that section 4.3 asks of a token: its first two comma-separated components,
  parsed as floating-point numbers in (longitude, latitude) order.
\<close>

definition coordinatePair :: "string \<Rightarrow> js_number list" where
  "coordinatePair tok =
     [parseFloat (at_index (splitOn CHR '','' tok) 0),
      parseFloat (at_index (splitOn CHR '','' tok) 1)]"

text \<open>
  A text starts with a number when, after leading white space and an optional sign, it begins
  with \<open>Infinity\<close>, with a digit, or with a dot and a digit: these are the shortest
  StrDecimalLiterals, so exactly the texts that have a StrDecimalLiteral as a prefix.
\<close>

definition startsWithNumber :: "string \<Rightarrow> bool" where
  "startsWithNumber s =
     (let u = snd (takeSign (dropWhile isWhiteSpace s))
      in take 8 u = ''Infinity''
         \<or> (case u of
               [] \<Rightarrow> False
             | c # r \<Rightarrow>
                 isDecimalDigit c
                 \<or> (c = CHR ''.'' \<and> (case r of [] \<Rightarrow> False | d # _ \<Rightarrow> isDecimalDigit d))))"

text \<open>
  A token parses as a number pair when it has a first and a second comma-separated component
  and both start with a number.
\<close>

definition parsesAsNumberPair :: "string \<Rightarrow> bool" where
  "parsesAsNumberPair tok =
     (case splitOn CHR '','' tok of
        lon # lat # _ \<Rightarrow> startsWithNumber lon \<and> startsWithNumber lat
      | _ \<Rightarrow> False)"

text \<open>
  Section 4.4: the candidate properties of a feature, and the document ordinals of the
  features whose candidate properties pass the properties schema, in ascending order: the
  features that are kept.
\<close>

definition candidateProperties :: "'c \<Rightarrow> KMLFeature \<Rightarrow> 'c BaseProperties" where
  "candidateProperties center_id feature =
     \<lparr>base_name = properties_name (properties feature), base_center_id = center_id\<rparr>"

definition survivingOrdinals ::
  "('c BaseProperties \<Rightarrow> 'p safe_parse_result) \<Rightarrow> 'c \<Rightarrow> KMLFeature list \<Rightarrow> nat list" where
  "survivingOrdinals schema center_id fs =
     filter (\<lambda>i. \<not> isl (schema (candidateProperties center_id (fs ! i)))) [0..<length fs]"

text \<open>The issues of a validation result: none when it succeeded.\<close>

definition issuesOf :: "'a safe_parse_result \<Rightarrow> zod_error" where
  "issuesOf result = (case result of Inl issues \<Rightarrow> issues | Inr _ \<Rightarrow> [])"

section \<open>Example data\<close>

text \<open>
  Instances for the examples: a properties schema that refuses an empty name and accepts
  everything else as it is, and a KML feature with a given identifier and name.
\<close>

definition requireName :: "string BaseProperties \<Rightarrow> string BaseProperties safe_parse_result" where
  "requireName candidate =
     (if base_name candidate = [] then Inl [ZodIssue invalid_type [Key ''name'']]
      else Inr candidate)"

definition kmlFeature :: "int \<Rightarrow> string \<Rightarrow> KMLFeature" where
  "kmlFeature n zone =
     \<lparr>feature_type = ''Feature'',
      geometry = \<lparr>geometry_type = ''Polygon'', geometry_coordinates = [[]]\<rparr>,
      feature_id = n,
      properties = \<lparr>properties_name = zone\<rparr>\<rparr>"

definition kmlCollection :: "KMLFeature list \<Rightarrow> KMLFeatureCollection" where
  "kmlCollection fs = \<lparr>collection_type = ''FeatureCollection'', features = fs\<rparr>"

definition kmlFile :: "KMLPlacemark list \<Rightarrow> KMLFile" where
  "kmlFile placemarks =
     \<lparr>kml = \<lparr>Document = \<lparr>Folder = \<lparr>Placemark = placemarks\<rparr>\<rparr>\<rparr>\<rparr>"

definition kmlPolygon :: "string \<Rightarrow> KMLPolygon" where
  "kmlPolygon ring =
     \<lparr>outerBoundaryIs = \<lparr>LinearRing = \<lparr>coordinates = \<lparr>coordinates_text = ring\<rparr>\<rparr>\<rparr>\<rparr>"

definition kmlPlacemark :: "string option \<Rightarrow> KMLPolygon option \<Rightarrow> KMLPlacemark" where
  "kmlPlacemark title polygon =
     \<lparr>name = \<lparr>name_text = title\<rparr>, Polygon = polygon, MultiGeometry = None\<rparr>"

text \<open>
  A response body for the examples, around the entries given for its
  \<open>mountain_weather_forecast\<close>, and a complete list of such entries.
\<close>

definition forecastResponse :: "(string \<times> json) list \<Rightarrow> json" where
  "forecastResponse mountainWeather =
     JObject
       [(''meta'',
           JObject [(''limit'', JNumber (Finite False 1)), (''next'', JNull),
                    (''offset'', JNumber (Finite False 0)), (''total_count'', JNumber (Finite False 1))]),
        (''objects'',
           JObject
             [(''five_thousand_foot_temperatures'',
                 JArray [JObject [(''min'', JNumber (Finite False 21)),
                                  (''max'', JNumber (Finite False 30))]]),
              (''forecaster'',
                 JObject [(''first_name'', JString ''Ada''), (''last_name'', JString ''Snow'')]),
              (''mountain_weather_forecast'', JObject mountainWeather),
              (''periods'', JArray [JString ''Monday'', JString ''Tuesday'']),
              (''sub_periods'', JArray []),
              (''precipitation_by_location'',
                 JArray [JObject [(''name'', JString ''Stevens Pass''),
                                  (''order'', JNumber (Finite False 1)),
                                  (''precipitation'', JArray [JObject [(''value'', JString ''0.25'')]])]]),
              (''snow_levels'', JArray [JObject [(''elevation'', JNumber (Finite False 4000))]]),
              (''ridgeline_winds'',
                 JArray [JObject [(''direction'', JString ''W''), (''speed'', JString ''10 - 20'')]]),
              (''weather_forecasts'',
                 JArray [JObject [(''date'', JString ''2023-01-02''),
                                  (''time_of_day'', JString ''1-morning''),
                                  (''description'', JString ''Light snow'')]])])]"

definition mountainWeatherEntries :: "(string \<times> json) list" where
  "mountainWeatherEntries =
     [(''id'', JNumber (Finite False 7)),
      (''creation_date'', JString ''2023-01-02 06:30:00''),
      (''publish_date'', JString ''2023-01-02 07:00:00''),
      (''day1_date'', JString ''2023-01-02''),
      (''special_header_notes'', JString ''''),
      (''synopsis_day1_day2'', JString ''A front arrives.''),
      (''extended_synopsis'', JString ''Clearing.''),
      (''afternoon'', JNumber (Finite False 0))]"

section \<open>Splitting and tokens\<close>

lemma tokens_Nil: "tokens [] = []"
  by (simp add: tokens.simps[of "[]"])

lemma tokens_dropWhile: "tokens (dropWhile isWhiteSpace s) = tokens s"
  by (simp add: tokens.simps[of s] tokens.simps[of "dropWhile isWhiteSpace s"])

lemma last_dropWhile_nonempty: "dropWhile P xs \<noteq> [] \<Longrightarrow> last (dropWhile P xs) = last xs"
  by (metis last_appendR takeWhile_dropWhile_id)

lemma splitWhiteSpace_tokens:
  "t \<noteq> [] \<Longrightarrow> \<not> isWhiteSpace (hd t) \<Longrightarrow> \<not> isWhiteSpace (last t) \<Longrightarrow>
   splitWhiteSpace t = tokens t"
proof (induction t rule: splitWhiteSpace.induct)
  case (1 s)
  let ?piece = "takeWhile (\<lambda>c. \<not> isWhiteSpace c) s"
  let ?rest = "dropWhile (\<lambda>c. \<not> isWhiteSpace c) s"
  let ?next = "dropWhile isWhiteSpace ?rest"
  have keep: "dropWhile isWhiteSpace s = s"
    using 1(2,3) by (cases s) auto
  have A: "splitWhiteSpace s = (if ?rest = [] then [?piece] else ?piece # splitWhiteSpace ?next)"
    using splitWhiteSpace.simps[of s] unfolding Let_def .
  have "tokens s =
          (if dropWhile isWhiteSpace s = [] then []
           else takeWhile (\<lambda>c. \<not> isWhiteSpace c) (dropWhile isWhiteSpace s) #
                tokens (dropWhile (\<lambda>c. \<not> isWhiteSpace c) (dropWhile isWhiteSpace s)))"
    using tokens.simps[of s] unfolding Let_def .
  hence B: "tokens s = ?piece # tokens ?rest"
    unfolding keep using 1(2) by simp
  show ?case
  proof (cases "?rest = []")
    case True
    have "tokens ?rest = []" unfolding True by (rule tokens_Nil)
    then show ?thesis by (simp add: A B True)
  next
    case False
    have ne: "?next \<noteq> []"
    proof
      assume e: "?next = []"
      have "last ?rest \<in> set ?rest" using False by (rule last_in_set)
      moreover have "\<forall>x\<in>set ?rest. isWhiteSpace x"
        using e unfolding dropWhile_eq_Nil_conv .
      ultimately have "isWhiteSpace (last ?rest)" by blast
      thus False using 1(4) last_dropWhile_nonempty[OF False] by simp
    qed
    have hd: "\<not> isWhiteSpace (hd ?next)" using ne hd_dropWhile by blast
    have "last ?next = last ?rest" using ne by (rule last_dropWhile_nonempty)
    also have "\<dots> = last s" using False by (rule last_dropWhile_nonempty)
    finally have lst: "\<not> isWhiteSpace (last ?next)" using 1(4) by simp
    have "splitWhiteSpace ?next = tokens ?next"
      using 1(1)[OF refl refl False ne hd lst] .
    also have "\<dots> = tokens ?rest" by (rule tokens_dropWhile)
    finally show ?thesis
      using False by (simp only: A B if_False)
  qed
qed

lemma dropWhile_twice_Nil:
  "dropWhile P (rev (dropWhile P xs)) = [] \<longleftrightarrow> (\<forall>x\<in>set xs. P x)"
proof
  assume a: "dropWhile P (rev (dropWhile P xs)) = []"
  have "dropWhile P xs = []"
  proof (rule ccontr)
    assume n: "dropWhile P xs \<noteq> []"
    hence "\<not> P (hd (dropWhile P xs))" by (rule hd_dropWhile)
    moreover have "hd (dropWhile P xs) \<in> set (rev (dropWhile P xs))" using n by simp
    moreover have "\<forall>x\<in>set (rev (dropWhile P xs)). P x"
      using a unfolding dropWhile_eq_Nil_conv .
    ultimately show False by blast
  qed
  thus "\<forall>x\<in>set xs. P x" unfolding dropWhile_eq_Nil_conv .
next
  assume "\<forall>x\<in>set xs. P x"
  hence e: "dropWhile P xs = []" unfolding dropWhile_eq_Nil_conv .
  show "dropWhile P (rev (dropWhile P xs)) = []" unfolding e by simp
qed

lemma trim_Nil_conv: "trim s = [] \<longleftrightarrow> list_all isWhiteSpace s"
  unfolding trim_def rev_is_Nil_conv dropWhile_twice_Nil list_all_iff ..

lemma trim_ends:
  assumes "trim s \<noteq> []"
  shows "\<not> isWhiteSpace (hd (trim s))" and "\<not> isWhiteSpace (last (trim s))"
proof -
  let ?d = "dropWhile isWhiteSpace s"
  let ?r = "dropWhile isWhiteSpace (rev ?d)"
  have r: "?r \<noteq> []" using assms unfolding trim_def rev_is_Nil_conv .
  have d: "?d \<noteq> []"
  proof
    assume e: "?d = []"
    have "?r = []" unfolding e by simp
    thus False using r by blast
  qed
  have "last (trim s) = hd ?r" unfolding trim_def using r by (simp add: last_rev)
  thus "\<not> isWhiteSpace (last (trim s))" using hd_dropWhile[OF r] by simp
  have "hd (trim s) = last ?r" unfolding trim_def using r by (simp add: hd_rev)
  also have "\<dots> = last (rev ?d)" using r by (rule last_dropWhile_nonempty)
  also have "\<dots> = hd ?d" using d by (simp add: last_rev)
  finally show "\<not> isWhiteSpace (hd (trim s))" using hd_dropWhile[OF d] by simp
qed

lemma tokens_shape:
  "t \<in> set (tokens s) \<Longrightarrow> t \<noteq> [] \<and> (\<forall>c\<in>set t. \<not> isWhiteSpace c)"
proof (induction s rule: tokens.induct)
  case (1 s)
  let ?t = "dropWhile isWhiteSpace s"
  let ?w = "takeWhile (\<lambda>c. \<not> isWhiteSpace c) ?t"
  let ?r = "dropWhile (\<lambda>c. \<not> isWhiteSpace c) ?t"
  have E: "tokens s = (if ?t = [] then [] else ?w # tokens ?r)"
    using tokens.simps[of s] unfolding Let_def .
  show ?case
  proof (cases "?t = []")
    case True
    have "tokens s = []" unfolding E True by simp
    thus ?thesis using 1(2) by simp
  next
    case False
    have T: "tokens s = ?w # tokens ?r" unfolding E using False by simp
    have "\<not> isWhiteSpace (hd ?t)" using False by (rule hd_dropWhile)
    hence w: "?w \<noteq> []" using False by (cases ?t) auto
    have ws: "\<forall>c\<in>set ?w. \<not> isWhiteSpace c" by (auto dest: set_takeWhileD)
    from 1(2) have "t = ?w \<or> t \<in> set (tokens ?r)" unfolding T by (rule set_ConsD)
    thus ?thesis
    proof
      assume e: "t = ?w"
      show ?thesis unfolding e by (rule conjI[OF w ws])
    next
      assume "t \<in> set (tokens ?r)"
      thus ?thesis using 1(1)[OF refl False] by blast
    qed
  qed
qed

section \<open>Coordinate parsing\<close>

lemma parseCoordinates_tokens:
  "parseCoordinates s =
     map (\<lambda>coord. [parseFloat (at_index (splitOn CHR '','' coord) 0),
                    parseFloat (at_index (splitOn CHR '','' coord) 1)])
       (tokens (trim s))"
proof (cases "trim s = []")
  case True
  then show ?thesis by (simp add: parseCoordinates_def tokens_Nil)
next
  case False
  hence "s \<noteq> []" by (auto simp: trim_def)
  moreover have "splitWhiteSpace (trim s) = tokens (trim s)"
    using False trim_ends[OF False] by (intro splitWhiteSpace_tokens)
  ultimately show ?thesis using False by (simp add: parseCoordinates_def Let_def)
qed

lemma splitOn_not_Nil: "splitOn sep s \<noteq> []"
  by (induction s) (auto split: list.splits)

lemma splitOn_no_separator: "sep \<notin> set s \<Longrightarrow> splitOn sep s = [s]"
  by (induction s) auto

lemma splitOn_append:
  "sep \<notin> set a \<Longrightarrow> splitOn sep (a @ sep # b) = a # splitOn sep b"
  by (induction a) auto

lemma parseFloatString_NaN: "parseFloatString s = NaN \<longleftrightarrow> \<not> startsWithNumber s"
proof -
  obtain negative u where t: "takeSign (dropWhile isWhiteSpace s) = (negative, u)"
    by (cases "takeSign (dropWhile isWhiteSpace s)")
  show ?thesis
  proof (cases "take 8 u = ''Infinity''")
    case True
    then show ?thesis by (simp add: parseFloatString_def startsWithNumber_def t)
  next
    case False
    show ?thesis
    proof (cases u)
      case Nil
      then show ?thesis by (simp add: parseFloatString_def startsWithNumber_def t)
    next
      case (Cons c r)
      show ?thesis
      proof (cases "isDecimalDigit c")
        case True
        then show ?thesis
          using False Cons
          by (simp add: parseFloatString_def startsWithNumber_def t Let_def split: prod.splits)
      next
        case nd: False
        have dot: "\<not> isDecimalDigit CHR ''.''" by (simp add: isDecimalDigit_def)
        show ?thesis
          using False Cons nd
          by (cases r) (auto simp: parseFloatString_def startsWithNumber_def t Let_def)
      qed
    qed
  qed
qed

lemma parseFloat_undefined: "parseFloat None = NaN"
  by (simp add: parseFloat_def parseFloatString_NaN startsWithNumber_def takeSign_def
      isWhiteSpace_def isDecimalDigit_def)

lemma pair_NaN_iff:
  "NaN \<in> set [parseFloat (at_index (splitOn CHR '','' tok) 0),
              parseFloat (at_index (splitOn CHR '','' tok) 1)]
   \<longleftrightarrow> \<not> parsesAsNumberPair tok"
proof (cases "splitOn CHR '','' tok")
  case Nil
  then show ?thesis using splitOn_not_Nil by blast
next
  case (Cons a rest)
  show ?thesis
  proof (cases rest)
    case Nil
    then show ?thesis
      using Cons by (simp add: parsesAsNumberPair_def at_index_def parseFloat_undefined)
  next
    case (Cons b more)
    then show ?thesis
      using \<open>splitOn CHR '','' tok = a # rest\<close> parseFloatString_NaN[of a] parseFloatString_NaN[of b]
      by (auto simp: parsesAsNumberPair_def at_index_def parseFloat_def)
  qed
qed

lemma parseCoordinates_coordinatePair:
  "parseCoordinates s = map coordinatePair (tokens (trim s))"
  unfolding parseCoordinates_tokens coordinatePair_def ..

lemma tokens_trim_not_Nil: "trim s \<noteq> [] \<Longrightarrow> tokens (trim s) \<noteq> []"
proof -
  assume n: "trim s \<noteq> []"
  have "\<not> isWhiteSpace (hd (trim s))" using n by (rule trim_ends(1))
  hence "dropWhile isWhiteSpace (trim s) = trim s" using n by (cases "trim s") auto
  hence "dropWhile isWhiteSpace (trim s) \<noteq> []" using n by simp
  thus ?thesis unfolding tokens.simps[of "trim s"] Let_def by simp
qed

lemma coordinatePair_components:
  assumes "CHR '','' \<notin> set lon" and "CHR '','' \<notin> set lat"
  shows "coordinatePair (lon @ '','' @ lat) = [parseFloat (Some lon), parseFloat (Some lat)]"
    and "coordinatePair (lon @ '','' @ lat @ '','' @ alt) = [parseFloat (Some lon), parseFloat (Some lat)]"
proof -
  have "splitOn CHR '','' (lon @ CHR '','' # lat) = [lon, lat]"
    using assms by (simp add: splitOn_append splitOn_no_separator)
  thus "coordinatePair (lon @ '','' @ lat) = [parseFloat (Some lon), parseFloat (Some lat)]"
    by (simp add: coordinatePair_def at_index_def)
  have "splitOn CHR '','' (lon @ CHR '','' # lat @ CHR '','' # alt) = lon # lat # splitOn CHR '','' alt"
    using assms by (simp add: splitOn_append)
  thus "coordinatePair (lon @ '','' @ lat @ '','' @ alt) = [parseFloat (Some lon), parseFloat (Some lat)]"
    by (simp add: coordinatePair_def at_index_def)
qed

lemmas parseFloat_eval =
  parseFloat_def parseFloatString_def takeSign_def isWhiteSpace_def isDecimalDigit_def
  decimalValue_def digitValue_def exponentPart_def scale10_def

lemma example_tokens:
  "tokens (trim ''-121.75,47.43 -121.76,47.44 -121.75,47.43'') =
     [''-121.75,47.43'', ''-121.76,47.44'', ''-121.75,47.43'']"
  by (simp add: trim_def tokens.simps isWhiteSpace_def)

lemma example_pairs:
  "coordinatePair ''-121.75,47.43'' = [Finite True 121.75, Finite False 47.43]"
  "coordinatePair ''-121.76,47.44'' = [Finite True 121.76, Finite False 47.44]"
  by (simp_all add: coordinatePair_def at_index_def parseFloat_eval)

text \<open>
  \<open>parseFloat\<close> reads a numeric prefix and ignores what follows it, so a component such
  as \<open>12abc\<close> parses; a component without a numeric prefix, or a missing one, does not.
\<close>

lemma prefix_parsing_examples:
  "coordinatePair ''12abc,3,4,5'' = [Finite False 12, Finite False 3]"
  "coordinatePair ''12'' = [Finite False 12, NaN]"
  "coordinatePair '',3'' = [NaN, Finite False 3]"
  "parsesAsNumberPair ''12abc,3,4,5''"
  "\<not> parsesAsNumberPair ''12''"
  "\<not> parsesAsNumberPair '',3''"
  by (simp_all add: coordinatePair_def at_index_def parseFloat_eval parsesAsNumberPair_def
      startsWithNumber_def)

text \<open>
  C4. Every white-space separated token of the trimmed input has its pair in the output, at
  the token's position: the output is as long as the list of tokens, its entry at a position
  is the pair of floats read from the first two comma-separated components of the token
  there, and when the token does not parse as a number pair that entry holds \<open>NaN\<close>. No
  token is dropped, and the function has no failing path.
\<close>

theorem parseCoordinates_keeps_every_token:
  "length (parseCoordinates s) = length (tokens (trim s)) \<and>
   (\<forall>i<length (tokens (trim s)).
      parseCoordinates s ! i = coordinatePair (tokens (trim s) ! i) \<and>
      length (parseCoordinates s ! i) = 2 \<and>
      (\<not> parsesAsNumberPair (tokens (trim s) ! i) \<longrightarrow> NaN \<in> set (parseCoordinates s ! i)))"
proof (intro conjI allI impI)
  show "length (parseCoordinates s) = length (tokens (trim s))"
    by (simp add: parseCoordinates_coordinatePair)
next
  fix i assume i: "i < length (tokens (trim s))"
  thus eq: "parseCoordinates s ! i = coordinatePair (tokens (trim s) ! i)"
    by (simp add: parseCoordinates_coordinatePair)
  show "length (parseCoordinates s ! i) = 2"
    unfolding eq by (simp add: coordinatePair_def)
  assume "\<not> parsesAsNumberPair (tokens (trim s) ! i)"
  thus "NaN \<in> set (parseCoordinates s ! i)"
    unfolding eq coordinatePair_def pair_NaN_iff .
qed

theorem parseCoordinates_keeps_every_token_witness:
  "length (parseCoordinates ''1.5,2 abc  3'') = 3 \<and>
   1 < length (tokens (trim ''1.5,2 abc  3'')) \<and>
   \<not> parsesAsNumberPair (tokens (trim ''1.5,2 abc  3'') ! 1) \<and>
   NaN \<in> set (parseCoordinates ''1.5,2 abc  3'' ! 1)"
proof -
  have t: "tokens (trim ''1.5,2 abc  3'') = [''1.5,2'', ''abc'', ''3'']"
    by (simp add: trim_def tokens.simps isWhiteSpace_def)
  have l: "1 < length (tokens (trim ''1.5,2 abc  3''))"
    unfolding t by simp
  have n: "\<not> parsesAsNumberPair (tokens (trim ''1.5,2 abc  3'') ! 1)"
    unfolding t by (simp add: parsesAsNumberPair_def)
  have "length (parseCoordinates ''1.5,2 abc  3'') = length (tokens (trim ''1.5,2 abc  3''))"
    using parseCoordinates_keeps_every_token[of "''1.5,2 abc  3''"] by blast
  hence len: "length (parseCoordinates ''1.5,2 abc  3'') = 3"
    unfolding t by simp
  have "NaN \<in> set (parseCoordinates ''1.5,2 abc  3'' ! 1)"
    using parseCoordinates_keeps_every_token[of "''1.5,2 abc  3''"] l n by blast
  thus ?thesis using len l n by blast
qed

text \<open>
  C5. An empty or all-white-space string gives the empty list. Any other string gives, for
  the tokens of its trimmed form split at runs of white space, in order, the pair of floats
  read from the first two comma-separated components: longitude, then latitude; a third
  component (the altitude) changes nothing. The string of the example parses to the three
  pairs of the example.
\<close>

theorem parseCoordinates_splits_trimmed_input:
  "(list_all isWhiteSpace s \<longrightarrow> parseCoordinates s = []) \<and>
   (\<not> list_all isWhiteSpace s \<longrightarrow>
      parseCoordinates s = map coordinatePair (tokens (trim s)) \<and> tokens (trim s) \<noteq> []) \<and>
   (CHR '','' \<notin> set lon \<and> CHR '','' \<notin> set lat \<longrightarrow>
      coordinatePair (lon @ '','' @ lat) = [parseFloat (Some lon), parseFloat (Some lat)] \<and>
      coordinatePair (lon @ '','' @ lat @ '','' @ alt) = [parseFloat (Some lon), parseFloat (Some lat)]) \<and>
   parseCoordinates ''-121.75,47.43 -121.76,47.44 -121.75,47.43'' =
     [[Finite True 121.75, Finite False 47.43],
      [Finite True 121.76, Finite False 47.44],
      [Finite True 121.75, Finite False 47.43]]"
proof (intro conjI impI)
  assume "list_all isWhiteSpace s"
  hence "trim s = []" by (simp only: trim_Nil_conv)
  thus "parseCoordinates s = []" by (simp add: parseCoordinates_def)
next
  assume "\<not> list_all isWhiteSpace s"
  hence "trim s \<noteq> []" by (simp only: trim_Nil_conv not_False_eq_True)
  thus "tokens (trim s) \<noteq> []" by (rule tokens_trim_not_Nil)
next
  show "parseCoordinates s = map coordinatePair (tokens (trim s))"
    by (rule parseCoordinates_coordinatePair)
next
  assume a: "CHR '','' \<notin> set lon \<and> CHR '','' \<notin> set lat"
  show "coordinatePair (lon @ '','' @ lat) = [parseFloat (Some lon), parseFloat (Some lat)]"
    using a by (intro coordinatePair_components(1)) simp_all
  show "coordinatePair (lon @ '','' @ lat @ '','' @ alt) = [parseFloat (Some lon), parseFloat (Some lat)]"
    using a by (intro coordinatePair_components(2)) simp_all
next
  show "parseCoordinates ''-121.75,47.43 -121.76,47.44 -121.75,47.43'' =
     [[Finite True 121.75, Finite False 47.43],
      [Finite True 121.76, Finite False 47.44],
      [Finite True 121.75, Finite False 47.43]]"
    unfolding parseCoordinates_coordinatePair example_tokens
    by (simp add: example_pairs)
qed

theorem parseCoordinates_splits_trimmed_input_witness:
  "list_all isWhiteSpace [CHR '' '', CHR 0x09] \<and>
   parseCoordinates [CHR '' '', CHR 0x09] = [] \<and>
   \<not> list_all isWhiteSpace '' 7,8,9  -1e1,.5 '' \<and>
   parseCoordinates '' 7,8,9  -1e1,.5 '' =
     [[Finite False 7, Finite False 8], [Finite True 10, Finite False 0.5]] \<and>
   CHR '','' \<notin> set ''7'' \<and> CHR '','' \<notin> set ''8'' \<and>
   coordinatePair (''7'' @ '','' @ ''8'' @ '','' @ ''9'') = [Finite False 7, Finite False 8]"
proof -
  have t: "tokens (trim '' 7,8,9  -1e1,.5 '') = [''7,8,9'', ''-1e1,.5'']"
    by (simp add: trim_def tokens.simps isWhiteSpace_def)
  have p: "coordinatePair ''7,8,9'' = [Finite False 7, Finite False 8]"
    "coordinatePair ''-1e1,.5'' = [Finite True 10, Finite False 0.5]"
    by (simp_all add: coordinatePair_def at_index_def parseFloat_eval)
  have f: "parseFloat (Some ''7'') = Finite False 7" "parseFloat (Some ''8'') = Finite False 8"
    by (simp_all add: parseFloat_eval)
  have b1: "list_all isWhiteSpace [CHR '' '', CHR 0x09]"
    by (simp add: isWhiteSpace_def)
  have b2: "\<not> list_all isWhiteSpace '' 7,8,9  -1e1,.5 ''"
    by (simp add: isWhiteSpace_def)
  have c: "CHR '','' \<notin> set ''7''" "CHR '','' \<notin> set ''8''"
    by simp_all
  have r1: "parseCoordinates [CHR '' '', CHR 0x09] = []"
    using parseCoordinates_splits_trimmed_input[of "[CHR '' '', CHR 0x09]"] b1 by blast
  have "parseCoordinates '' 7,8,9  -1e1,.5 '' =
          map coordinatePair (tokens (trim '' 7,8,9  -1e1,.5 ''))"
    using parseCoordinates_splits_trimmed_input[of "'' 7,8,9  -1e1,.5 ''"] b2 by blast
  hence r2: "parseCoordinates '' 7,8,9  -1e1,.5 '' =
          [[Finite False 7, Finite False 8], [Finite True 10, Finite False 0.5]]"
    unfolding t by (simp add: p)
  have "coordinatePair (''7'' @ '','' @ ''8'' @ '','' @ ''9'') =
          [parseFloat (Some ''7''), parseFloat (Some ''8'')]"
    using parseCoordinates_splits_trimmed_input[of "[]" "''7''" "''8''" "''9''"] c by blast
  hence r3: "coordinatePair (''7'' @ '','' @ ''8'' @ '','' @ ''9'') =
          [Finite False 7, Finite False 8]"
    unfolding f .
  show ?thesis using b1 r1 b2 r2 c r3 by blast
qed

section \<open>Feature synthesis\<close>

lemma enumerate_by_index: "List.enumerate 0 xs = map (\<lambda>i. (i, xs ! i)) [0..<length xs]"
  by (rule nth_equalityI) (simp_all add: nth_enumerate_eq)

lemma transformFeature_failure:
  "schema (candidateProperties c f) = Inl error \<Longrightarrow>
   transformFeature schema c i f = ([LogErrorInvalidProperties i error], None)"
  by (simp add: transformFeature_def candidateProperties_def)

lemma transformFeature_success:
  "schema (candidateProperties c f) = Inr p \<Longrightarrow>
   transformFeature schema c i f =
     ([], Some \<lparr>feature_type = ''Feature'', geometry = geometry f,
                feature_id = - 100000 - int i, properties = p\<rparr>)"
  by (simp add: transformFeature_def candidateProperties_def)

lemma transformFeature_None:
  "snd (transformFeature schema c i f) \<noteq> None \<longleftrightarrow> \<not> isl (schema (candidateProperties c f))"
  by (cases "schema (candidateProperties c f)")
     (simp_all add: transformFeature_failure transformFeature_success)

lemma transformFeature_Some:
  "(\<exists>y. snd (transformFeature schema c i f) = Some y) \<longleftrightarrow>
   \<not> isl (schema (candidateProperties c f))"
  using transformFeature_None[of schema c i f] by auto

lemma transform_features:
  "features (snd (transformKmlFeaturesToObservationZones schema kc c)) =
     map (\<lambda>i. the (snd (transformFeature schema c i (features kc ! i))))
       (survivingOrdinals schema c (features kc))"
  by (simp add: transformKmlFeaturesToObservationZones_def Let_def enumerate_by_index
      filter_map comp_def survivingOrdinals_def transformFeature_Some)

lemma transform_collection_type:
  "collection_type (snd (transformKmlFeaturesToObservationZones schema kc c)) = ''FeatureCollection''"
  by (simp add: transformKmlFeaturesToObservationZones_def Let_def)

lemma survivingOrdinals_nth:
  assumes "k < length (survivingOrdinals schema c fs)"
  shows "survivingOrdinals schema c fs ! k < length fs"
    and "\<not> isl (schema (candidateProperties c (fs ! (survivingOrdinals schema c fs ! k))))"
proof -
  have "survivingOrdinals schema c fs ! k \<in> set (survivingOrdinals schema c fs)"
    using assms by (rule nth_mem)
  thus "survivingOrdinals schema c fs ! k < length fs"
    and "\<not> isl (schema (candidateProperties c (fs ! (survivingOrdinals schema c fs ! k))))"
    by (simp_all add: survivingOrdinals_def)
qed

lemma survivingOrdinals_ascending: "sorted_wrt (<) (survivingOrdinals schema c fs)"
  unfolding survivingOrdinals_def by (rule sorted_wrt_filter) simp

lemma ascending_nth_ge: "sorted_wrt (<) (xs :: nat list) \<Longrightarrow> k < length xs \<Longrightarrow> k \<le> xs ! k"
proof (induction k)
  case 0
  then show ?case by simp
next
  case (Suc k)
  have "xs ! k < xs ! Suc k" using Suc.prems by (simp add: sorted_wrt_nth_less)
  moreover have "k \<le> xs ! k" using Suc by simp
  ultimately show ?case by simp
qed

lemma survivingOrdinals_length: "length (survivingOrdinals schema c fs) \<le> length fs"
  unfolding survivingOrdinals_def
  using length_filter_le[of _ "[0..<length fs]"] by simp

lemma transform_nth:
  assumes "k < length (survivingOrdinals schema c (features kc))"
  shows "\<exists>p. schema (candidateProperties c (features kc ! (survivingOrdinals schema c (features kc) ! k))) = Inr p \<and>
     features (snd (transformKmlFeaturesToObservationZones schema kc c)) ! k =
       \<lparr>feature_type = ''Feature'',
        geometry = geometry (features kc ! (survivingOrdinals schema c (features kc) ! k)),
        feature_id = - 100000 - int (survivingOrdinals schema c (features kc) ! k),
        properties = p\<rparr>"
proof -
  let ?i = "survivingOrdinals schema c (features kc) ! k"
  have "\<not> isl (schema (candidateProperties c (features kc ! ?i)))"
    using assms by (rule survivingOrdinals_nth(2))
  then obtain p where p: "schema (candidateProperties c (features kc ! ?i)) = Inr p"
    by (cases "schema (candidateProperties c (features kc ! ?i))") auto
  show ?thesis
    using assms p by (auto simp: transform_features transformFeature_success)
qed

text \<open>
  C1. The output has at most as many features as the input. Its feature at position
  \<open>k\<close> comes from the input feature whose ordinal \<open>i\<close> is the \<open>k\<close>-th surviving
  ordinal: it has that feature's geometry, the validated properties of that feature, and the
  identifier \<open>-100000 - i\<close>. The ordinal is the index in the input; it is at least the
  position \<open>k\<close> in the output and differs from it once a feature was dropped before.
\<close>

theorem transform_identifier_from_original_ordinal:
  "length (features (snd (transformKmlFeaturesToObservationZones schema kc c)))
     \<le> length (features kc) \<and>
   length (features (snd (transformKmlFeaturesToObservationZones schema kc c)))
     = length (survivingOrdinals schema c (features kc)) \<and>
   (\<forall>k<length (features (snd (transformKmlFeaturesToObservationZones schema kc c))).
      survivingOrdinals schema c (features kc) ! k < length (features kc) \<and>
      k \<le> survivingOrdinals schema c (features kc) ! k \<and>
      feature_id (features (snd (transformKmlFeaturesToObservationZones schema kc c)) ! k)
        = - 100000 - int (survivingOrdinals schema c (features kc) ! k) \<and>
      geometry (features (snd (transformKmlFeaturesToObservationZones schema kc c)) ! k)
        = geometry (features kc ! (survivingOrdinals schema c (features kc) ! k)) \<and>
      schema (candidateProperties c (features kc ! (survivingOrdinals schema c (features kc) ! k)))
        = Inr (properties (features (snd (transformKmlFeaturesToObservationZones schema kc c)) ! k)))"
proof -
  let ?out = "features (snd (transformKmlFeaturesToObservationZones schema kc c))"
  let ?sv = "survivingOrdinals schema c (features kc)"
  have len: "length ?out = length ?sv" by (simp add: transform_features)
  moreover have "length ?out \<le> length (features kc)"
    unfolding len by (rule survivingOrdinals_length)
  moreover have "\<forall>k<length ?out.
      ?sv ! k < length (features kc) \<and> k \<le> ?sv ! k \<and>
      feature_id (?out ! k) = - 100000 - int (?sv ! k) \<and>
      geometry (?out ! k) = geometry (features kc ! (?sv ! k)) \<and>
      schema (candidateProperties c (features kc ! (?sv ! k))) = Inr (properties (?out ! k))"
  proof (intro allI impI)
    fix k assume "k < length ?out"
    hence k: "k < length ?sv" unfolding len .
    obtain p where p: "schema (candidateProperties c (features kc ! (?sv ! k))) = Inr p"
      and o: "?out ! k = \<lparr>feature_type = ''Feature'', geometry = geometry (features kc ! (?sv ! k)),
                feature_id = - 100000 - int (?sv ! k), properties = p\<rparr>"
      using transform_nth[OF k] by blast
    show "?sv ! k < length (features kc) \<and> k \<le> ?sv ! k \<and>
      feature_id (?out ! k) = - 100000 - int (?sv ! k) \<and>
      geometry (?out ! k) = geometry (features kc ! (?sv ! k)) \<and>
      schema (candidateProperties c (features kc ! (?sv ! k))) = Inr (properties (?out ! k))"
      using survivingOrdinals_nth(1)[OF k] ascending_nth_ge[OF survivingOrdinals_ascending k] p
      unfolding o by simp
  qed
  ultimately show ?thesis by blast
qed

theorem transform_identifier_from_original_ordinal_witness:
  "length (features (snd (transformKmlFeaturesToObservationZones requireName
      (kmlCollection [kmlFeature 0 [], kmlFeature 1 ''Zone B'']) ''NWAC''))) = 1 \<and>
   0 < length (features (snd (transformKmlFeaturesToObservationZones requireName
      (kmlCollection [kmlFeature 0 [], kmlFeature 1 ''Zone B'']) ''NWAC''))) \<and>
   feature_id (features (snd (transformKmlFeaturesToObservationZones requireName
      (kmlCollection [kmlFeature 0 [], kmlFeature 1 ''Zone B'']) ''NWAC'')) ! 0) = - 100001"
proof -
  let ?kc = "kmlCollection [kmlFeature 0 [], kmlFeature 1 ''Zone B'']"
  let ?out = "features (snd (transformKmlFeaturesToObservationZones requireName ?kc ''NWAC''))"
  have sv: "survivingOrdinals requireName ''NWAC'' (features ?kc) = [1]"
    by (simp add: survivingOrdinals_def candidateProperties_def requireName_def
        kmlCollection_def kmlFeature_def upt_rec)
  note T = transform_identifier_from_original_ordinal[of requireName ?kc "''NWAC''"]
  have len: "length ?out = 1" using T unfolding sv by simp
  hence pos: "0 < length ?out" by simp
  have "feature_id (?out ! 0) = - 100000 - int (survivingOrdinals requireName ''NWAC'' (features ?kc) ! 0)"
    using T pos by blast
  hence "feature_id (?out ! 0) = - 100001" unfolding sv by simp
  thus ?thesis using len pos by blast
qed

lemma transform_ids:
  "map feature_id (features (snd (transformKmlFeaturesToObservationZones schema kc c))) =
     map (\<lambda>i. - 100000 - int i) (survivingOrdinals schema c (features kc))"
proof (rule nth_equalityI)
  show "length (map feature_id (features (snd (transformKmlFeaturesToObservationZones schema kc c)))) =
        length (map (\<lambda>i. - 100000 - int i) (survivingOrdinals schema c (features kc)))"
    by (simp add: transform_features)
next
  fix k
  assume "k < length (map feature_id (features (snd (transformKmlFeaturesToObservationZones schema kc c))))"
  hence k: "k < length (survivingOrdinals schema c (features kc))"
    by (simp add: transform_features)
  hence k': "k < length (features (snd (transformKmlFeaturesToObservationZones schema kc c)))"
    by (simp add: transform_features)
  obtain p where
    "features (snd (transformKmlFeaturesToObservationZones schema kc c)) ! k =
       \<lparr>feature_type = ''Feature'',
        geometry = geometry (features kc ! (survivingOrdinals schema c (features kc) ! k)),
        feature_id = - 100000 - int (survivingOrdinals schema c (features kc) ! k),
        properties = p\<rparr>"
    using transform_nth[OF k] by blast
  thus "map feature_id (features (snd (transformKmlFeaturesToObservationZones schema kc c))) ! k =
        map (\<lambda>i. - 100000 - int i) (survivingOrdinals schema c (features kc)) ! k"
    using k k' by simp
qed

lemma identifier_present_iff:
  "(\<exists>f\<in>set (features (snd (transformKmlFeaturesToObservationZones schema kc c))).
       feature_id f = - 100000 - int i)
   \<longleftrightarrow> i < length (features kc) \<and> \<not> isl (schema (candidateProperties c (features kc ! i)))"
proof -
  have "(\<exists>f\<in>set (features (snd (transformKmlFeaturesToObservationZones schema kc c))).
           feature_id f = - 100000 - int i)
        \<longleftrightarrow> - 100000 - int i
              \<in> set (map feature_id (features (snd (transformKmlFeaturesToObservationZones schema kc c))))"
    by (force simp: image_iff)
  also have "\<dots> \<longleftrightarrow> i \<in> set (survivingOrdinals schema c (features kc))"
    unfolding transform_ids by auto
  also have "\<dots> \<longleftrightarrow> i < length (features kc) \<and> \<not> isl (schema (candidateProperties c (features kc ! i)))"
    by (simp add: survivingOrdinals_def)
  finally show ?thesis .
qed

text \<open>
  C6. A feature of the input has its identifier \<open>-100000 - i\<close> in the output exactly when
  its own candidate properties pass the schema: a failing feature is absent, and no other
  feature is. The output lists the passing features in the order of the input (their
  ordinals ascend, so their identifiers descend), each built from its own input feature
  alone.
\<close>

theorem transform_drops_exactly_failing_features:
  "(\<forall>i<length (features kc).
      (\<exists>f\<in>set (features (snd (transformKmlFeaturesToObservationZones schema kc c))).
          feature_id f = - 100000 - int i)
      \<longleftrightarrow> \<not> isl (schema (candidateProperties c (features kc ! i)))) \<and>
   length (features (snd (transformKmlFeaturesToObservationZones schema kc c)))
     = length (survivingOrdinals schema c (features kc)) \<and>
   (\<forall>k<length (survivingOrdinals schema c (features kc)).
      \<exists>p. schema (candidateProperties c
                    (features kc ! (survivingOrdinals schema c (features kc) ! k))) = Inr p \<and>
          features (snd (transformKmlFeaturesToObservationZones schema kc c)) ! k =
            \<lparr>feature_type = ''Feature'',
             geometry = geometry (features kc ! (survivingOrdinals schema c (features kc) ! k)),
             feature_id = - 100000 - int (survivingOrdinals schema c (features kc) ! k),
             properties = p\<rparr>) \<and>
   sorted_wrt (<) (survivingOrdinals schema c (features kc)) \<and>
   sorted_wrt (>) (map feature_id
      (features (snd (transformKmlFeaturesToObservationZones schema kc c))))"
proof (intro conjI allI impI)
  fix i assume "i < length (features kc)"
  thus "(\<exists>f\<in>set (features (snd (transformKmlFeaturesToObservationZones schema kc c))).
          feature_id f = - 100000 - int i)
      \<longleftrightarrow> \<not> isl (schema (candidateProperties c (features kc ! i)))"
    by (simp add: identifier_present_iff)
next
  show "length (features (snd (transformKmlFeaturesToObservationZones schema kc c)))
     = length (survivingOrdinals schema c (features kc))"
    by (simp add: transform_features)
next
  fix k assume "k < length (survivingOrdinals schema c (features kc))"
  thus "\<exists>p. schema (candidateProperties c
                    (features kc ! (survivingOrdinals schema c (features kc) ! k))) = Inr p \<and>
          features (snd (transformKmlFeaturesToObservationZones schema kc c)) ! k =
            \<lparr>feature_type = ''Feature'',
             geometry = geometry (features kc ! (survivingOrdinals schema c (features kc) ! k)),
             feature_id = - 100000 - int (survivingOrdinals schema c (features kc) ! k),
             properties = p\<rparr>"
    by (rule transform_nth)
next
  show "sorted_wrt (<) (survivingOrdinals schema c (features kc))"
    by (rule survivingOrdinals_ascending)
next
  have "sorted_wrt (\<lambda>i j. - 100000 - int i > - 100000 - int j)
          (survivingOrdinals schema c (features kc))"
    by (rule sorted_wrt_mono_rel[OF _ survivingOrdinals_ascending]) simp
  thus "sorted_wrt (>) (map feature_id
      (features (snd (transformKmlFeaturesToObservationZones schema kc c))))"
    unfolding transform_ids sorted_wrt_map .
qed

theorem transform_drops_exactly_failing_features_witness:
  "1 < length (features (kmlCollection
         [kmlFeature 0 ''Zone A'', kmlFeature 1 [], kmlFeature 2 ''Zone C''])) \<and>
   isl (requireName (candidateProperties ''NWAC'' (features (kmlCollection
         [kmlFeature 0 ''Zone A'', kmlFeature 1 [], kmlFeature 2 ''Zone C'']) ! 1))) \<and>
   \<not> (\<exists>f\<in>set (features (snd (transformKmlFeaturesToObservationZones requireName
         (kmlCollection [kmlFeature 0 ''Zone A'', kmlFeature 1 [], kmlFeature 2 ''Zone C''])
         ''NWAC''))). feature_id f = - 100000 - int 1) \<and>
   map feature_id (features (snd (transformKmlFeaturesToObservationZones requireName
         (kmlCollection [kmlFeature 0 ''Zone A'', kmlFeature 1 [], kmlFeature 2 ''Zone C''])
         ''NWAC''))) = [- 100000, - 100002]"
proof -
  let ?kc = "kmlCollection [kmlFeature 0 ''Zone A'', kmlFeature 1 [], kmlFeature 2 ''Zone C'']"
  let ?out = "features (snd (transformKmlFeaturesToObservationZones requireName ?kc ''NWAC''))"
  note T = transform_drops_exactly_failing_features[of ?kc requireName "''NWAC''"]
  have l: "1 < length (features ?kc)"
    by (simp add: kmlCollection_def)
  have bad: "isl (requireName (candidateProperties ''NWAC'' (features ?kc ! 1)))"
    by (simp add: kmlCollection_def kmlFeature_def candidateProperties_def requireName_def)
  have absent: "\<not> (\<exists>f\<in>set ?out. feature_id f = - 100000 - int 1)"
    using T l bad by blast
  have sv: "survivingOrdinals requireName ''NWAC'' (features ?kc) = [0, 2]"
    by (simp add: survivingOrdinals_def candidateProperties_def requireName_def
        kmlCollection_def kmlFeature_def upt_rec)
  have len: "length ?out = 2" using T unfolding sv by simp
  have "\<forall>k<length (survivingOrdinals requireName ''NWAC'' (features ?kc)).
          feature_id (?out ! k) = - 100000 - int (survivingOrdinals requireName ''NWAC'' (features ?kc) ! k)"
    using T by fastforce
  hence ids: "feature_id (?out ! 0) = - 100000" "feature_id (?out ! 1) = - 100002"
    unfolding sv by simp_all
  obtain a b where o: "?out = [a, b]"
    using len by (auto simp: length_Suc_conv numeral_2_eq_2)
  have "map feature_id ?out = [- 100000, - 100002]"
    using ids unfolding o by simp
  thus ?thesis using l bad absent by blast
qed

section \<open>Parsing a KML document\<close>

lemma parseKmlData_invalid:
  assumes "xml2json response = Inr kmlResponse"
    and "JSON_parse kmlResponse = Inr tree"
    and "KMLFileSchema tree = Inl error"
  shows "parseKmlData xml2json JSON_parse KMLFileSchema response url =
           ([LogErrorInvalidKmlFile error, CaptureException error url], Inr emptyFeatureCollection)"
  using assms by (simp add: parseKmlData_def)

lemma parseKmlData_valid:
  assumes "xml2json response = Inr kmlResponse"
    and "JSON_parse kmlResponse = Inr tree"
    and "KMLFileSchema tree = Inr kmlData"
  shows "parseKmlData xml2json JSON_parse KMLFileSchema response url =
           ([], Inr \<lparr>collection_type = ''FeatureCollection'',
                     features = map (\<lambda>i. placemarkToFeature i
                                            (Placemark (Folder (Document (kml kmlData))) ! i))
                                  [0..<length (Placemark (Folder (Document (kml kmlData))))]\<rparr>)"
  using assms by (simp add: parseKmlData_def Let_def enumerate_by_index)

lemma transform_empty:
  "transformKmlFeaturesToObservationZones schema emptyFeatureCollection c =
     ([], emptyFeatureCollection)"
  by (simp add: transformKmlFeaturesToObservationZones_def emptyFeatureCollection_def)

lemma fetch_after_response:
  "\<exists>events fc. fetchAlternateObservationZones xml2json JSON_parse KMLFileSchema schema
      (Inr response) url c = (events, Inr fc)"
  by (auto simp: fetchAlternateObservationZones_def split: prod.splits sum.splits)

lemma placemarkName_not_empty: "placemarkName placemark \<noteq> []"
  by (simp add: placemarkName_def split: option.splits)

text \<open>
  C2. When the tree parsed from the response fails \<open>KMLFileSchema\<close>, \<open>parseKmlData\<close>
  returns the empty feature collection (after reporting the error), and
  \<open>fetchAlternateObservationZones\<close> around it returns the same collection. Neither raises;
  once the response is fetched, \<open>fetchAlternateObservationZones\<close> returns a collection
  whatever the parsing does.
\<close>

theorem schema_failure_gives_empty_collection:
  assumes "xml2json response = Inr kmlResponse"
    and "JSON_parse kmlResponse = Inr tree"
    and "KMLFileSchema tree = Inl error"
  shows "parseKmlData xml2json JSON_parse KMLFileSchema response url =
           ([LogErrorInvalidKmlFile error, CaptureException error url],
            Inr \<lparr>collection_type = ''FeatureCollection'', features = []\<rparr>) \<and>
         snd (fetchAlternateObservationZones xml2json JSON_parse KMLFileSchema schema
                (Inr response) url c) =
           Inr \<lparr>collection_type = ''FeatureCollection'', features = []\<rparr> \<and>
         (\<forall>xml2json' JSON_parse' KMLFileSchema'.
            \<not> isl (snd (fetchAlternateObservationZones xml2json' JSON_parse' KMLFileSchema' schema
                          (Inr response) url c)))"
proof (intro conjI allI)
  have p: "parseKmlData xml2json JSON_parse KMLFileSchema response url =
           ([LogErrorInvalidKmlFile error, CaptureException error url], Inr emptyFeatureCollection)"
    using assms by (rule parseKmlData_invalid)
  thus "parseKmlData xml2json JSON_parse KMLFileSchema response url =
           ([LogErrorInvalidKmlFile error, CaptureException error url],
            Inr \<lparr>collection_type = ''FeatureCollection'', features = []\<rparr>)"
    by (simp add: emptyFeatureCollection_def)
  show "snd (fetchAlternateObservationZones xml2json JSON_parse KMLFileSchema schema
                (Inr response) url c) =
           Inr \<lparr>collection_type = ''FeatureCollection'', features = []\<rparr>"
    by (simp add: fetchAlternateObservationZones_def p transform_empty)
       (simp add: emptyFeatureCollection_def)
next
  fix xml2json' :: "string \<Rightarrow> js_error + string"
    and JSON_parse' :: "string \<Rightarrow> js_error + 'e"
    and KMLFileSchema' :: "'e \<Rightarrow> KMLFile safe_parse_result"
  show "\<not> isl (snd (fetchAlternateObservationZones xml2json' JSON_parse' KMLFileSchema' schema
                          (Inr response) url c))"
    using fetch_after_response[of xml2json' JSON_parse' KMLFileSchema' schema response url c]
    by auto
qed

theorem schema_failure_gives_empty_collection_witness:
  "(Inr ''<kml/>'' :: js_error + string) = Inr ''<kml/>'' \<and>
   parseKmlData (\<lambda>xml. Inr xml) (\<lambda>text. Inr text)
       (\<lambda>tree. if tree = ''<kml/>'' then Inl [ZodIssue invalid_type [Key ''kml'', Key ''Document'']]
                else Inr (kmlFile []))
       ''<kml/>'' ''https://example.org/zones.kml'' =
     ([LogErrorInvalidKmlFile [ZodIssue invalid_type [Key ''kml'', Key ''Document'']],
       CaptureException [ZodIssue invalid_type [Key ''kml'', Key ''Document'']]
         ''https://example.org/zones.kml''],
      Inr \<lparr>collection_type = ''FeatureCollection'', features = []\<rparr>) \<and>
   snd (fetchAlternateObservationZones (\<lambda>xml. Inr xml) (\<lambda>text. Inr text)
       (\<lambda>tree. if tree = ''<kml/>'' then Inl [ZodIssue invalid_type [Key ''kml'', Key ''Document'']]
                else Inr (kmlFile []))
       requireName (Inr ''<kml/>'') ''https://example.org/zones.kml'' ''NWAC'') =
     Inr \<lparr>collection_type = ''FeatureCollection'', features = []\<rparr>"
proof -
  let ?schema = "\<lambda>tree. if tree = ''<kml/>''
                         then Inl [ZodIssue invalid_type [Key ''kml'', Key ''Document'']]
                         else Inr (kmlFile [])"
  have a: "(\<lambda>xml. Inr xml :: js_error + string) ''<kml/>'' = Inr ''<kml/>''" by simp
  have b: "?schema ''<kml/>'' = Inl [ZodIssue invalid_type [Key ''kml'', Key ''Document'']]"
    by simp
  show ?thesis
    using schema_failure_gives_empty_collection[of "\<lambda>xml. Inr xml" "''<kml/>''" "''<kml/>''"
        "\<lambda>text. Inr text" "''<kml/>''" ?schema
        "[ZodIssue invalid_type [Key ''kml'', Key ''Document'']]"
        "''https://example.org/zones.kml''" requireName "''NWAC''", OF a a b]
    by blast
qed

text \<open>
  C9. In a document that passes \<open>KMLFileSchema\<close>, a placemark whose name has no text or
  an empty text gives a feature, at the placemark's position, named
  \<open>Unknown KML Zone\<close>. No feature of \<open>parseKmlData\<close> has an empty name, and under
  any properties schema that accepts every non-empty name for the center the feature of that
  placemark is in the output of \<open>transformKmlFeaturesToObservationZones\<close>.
\<close>

theorem missing_name_gets_default:
  assumes "xml2json response = Inr kmlResponse"
    and "JSON_parse kmlResponse = Inr tree"
    and "KMLFileSchema tree = Inr kmlData"
    and "i < length (Placemark (Folder (Document (kml kmlData))))"
    and "name_text (name (Placemark (Folder (Document (kml kmlData))) ! i)) = None \<or>
         name_text (name (Placemark (Folder (Document (kml kmlData))) ! i)) = Some []"
  shows "\<exists>fc. snd (parseKmlData xml2json JSON_parse KMLFileSchema response url) = Inr fc \<and>
           length (features fc) = length (Placemark (Folder (Document (kml kmlData)))) \<and>
           properties_name (properties (features fc ! i)) = ''Unknown KML Zone'' \<and>
           (\<forall>f\<in>set (features fc). properties_name (properties f) \<noteq> []) \<and>
           ((\<forall>n. n \<noteq> [] \<longrightarrow> \<not> isl (schema \<lparr>base_name = n, base_center_id = c\<rparr>)) \<longrightarrow>
            (\<exists>f\<in>set (features (snd (transformKmlFeaturesToObservationZones schema fc c))).
                feature_id f = - 100000 - int i))"
proof -
  let ?pms = "Placemark (Folder (Document (kml kmlData)))"
  let ?fc = "\<lparr>collection_type = ''FeatureCollection'',
              features = map (\<lambda>i. placemarkToFeature i (?pms ! i)) [0..<length ?pms]\<rparr>"
  have r: "snd (parseKmlData xml2json JSON_parse KMLFileSchema response url) = Inr ?fc"
    using parseKmlData_valid[of xml2json response kmlResponse JSON_parse tree KMLFileSchema kmlData url]
      assms(1-3) by simp
  have len: "length (features ?fc) = length ?pms" by simp
  have nm: "properties_name (properties (features ?fc ! i)) = placemarkName (?pms ! i)"
    using assms(4) by (simp add: placemarkToFeature_def)
  have dflt: "placemarkName (?pms ! i) = ''Unknown KML Zone''"
    using assms(5) by (auto simp: placemarkName_def)
  have all: "\<forall>f\<in>set (features ?fc). properties_name (properties f) \<noteq> []"
    by (auto simp: placemarkToFeature_def placemarkName_not_empty)
  have kept: "\<exists>f\<in>set (features (snd (transformKmlFeaturesToObservationZones schema ?fc c))).
                feature_id f = - 100000 - int i"
    if acc: "\<forall>n. n \<noteq> [] \<longrightarrow> \<not> isl (schema \<lparr>base_name = n, base_center_id = c\<rparr>)"
  proof -
    have "\<not> isl (schema (candidateProperties c (features ?fc ! i)))"
      unfolding candidateProperties_def nm dflt using acc by simp
    thus ?thesis
      unfolding identifier_present_iff using assms(4) by simp
  qed
  show ?thesis
    using r len nm dflt all kept by (intro exI[of _ ?fc]) simp
qed

theorem missing_name_gets_default_witness:
  "(1::nat) < length (Placemark (Folder (Document (kml (kmlFile
       [kmlPlacemark (Some ''Zone A'') (Some (kmlPolygon ''1,2 3,4 1,2'')),
        kmlPlacemark None (Some (kmlPolygon ''5,6 7,8 5,6''))]))))) \<and>
   name_text (name (Placemark (Folder (Document (kml (kmlFile
       [kmlPlacemark (Some ''Zone A'') (Some (kmlPolygon ''1,2 3,4 1,2'')),
        kmlPlacemark None (Some (kmlPolygon ''5,6 7,8 5,6''))])))) ! 1)) = None \<and>
   (\<exists>fc. snd (parseKmlData (\<lambda>xml. Inr xml) (\<lambda>text. Inr text)
              (\<lambda>tree. Inr (kmlFile
                 [kmlPlacemark (Some ''Zone A'') (Some (kmlPolygon ''1,2 3,4 1,2'')),
                  kmlPlacemark None (Some (kmlPolygon ''5,6 7,8 5,6''))]))
              ''<kml/>'' ''https://example.org/zones.kml'') = Inr fc \<and>
      properties_name (properties (features fc ! 1)) = ''Unknown KML Zone'' \<and>
      (\<exists>f\<in>set (features (snd (transformKmlFeaturesToObservationZones requireName fc ''NWAC''))).
          feature_id f = - 100001))"
proof -
  let ?file = "kmlFile
       [kmlPlacemark (Some ''Zone A'') (Some (kmlPolygon ''1,2 3,4 1,2'')),
        kmlPlacemark None (Some (kmlPolygon ''5,6 7,8 5,6''))]"
  have a: "(\<lambda>xml. Inr xml :: js_error + string) ''<kml/>'' = Inr ''<kml/>''" by simp
  have b: "(\<lambda>tree :: string. Inr ?file :: KMLFile safe_parse_result) ''<kml/>'' = Inr ?file" by simp
  have l: "(1::nat) < length (Placemark (Folder (Document (kml ?file))))"
    by (simp add: kmlFile_def)
  have n: "name_text (name (Placemark (Folder (Document (kml ?file))) ! 1)) = None"
    by (simp add: kmlFile_def kmlPlacemark_def)
  have acc: "\<forall>n. n \<noteq> [] \<longrightarrow> \<not> isl (requireName \<lparr>base_name = n, base_center_id = ''NWAC''\<rparr>)"
    by (simp add: requireName_def)
  obtain fc where
    "snd (parseKmlData (\<lambda>xml. Inr xml) (\<lambda>text. Inr text) (\<lambda>tree. Inr ?file)
            ''<kml/>'' ''https://example.org/zones.kml'') = Inr fc"
    "properties_name (properties (features fc ! 1)) = ''Unknown KML Zone''"
    "(\<forall>n. n \<noteq> [] \<longrightarrow> \<not> isl (requireName \<lparr>base_name = n, base_center_id = ''NWAC''\<rparr>)) \<longrightarrow>
     (\<exists>f\<in>set (features (snd (transformKmlFeaturesToObservationZones requireName fc ''NWAC''))).
         feature_id f = - 100000 - int 1)"
    using missing_name_gets_default[of "\<lambda>xml. Inr xml" "''<kml/>''" "''<kml/>''"
        "\<lambda>text. Inr text" "''<kml/>''" "\<lambda>tree. Inr ?file" ?file 1
        "''https://example.org/zones.kml''" requireName "''NWAC''", OF a a b l disjI1[OF n]]
    by blast
  thus ?thesis using l n acc by auto
qed

text \<open>
  C10. For a placemark with neither a \<open>Polygon\<close> nor a \<open>MultiGeometry\<close>,
  \<open>getCoordinateString\<close> returns the empty string, and in a document that passes
  \<open>KMLFileSchema\<close> \<open>parseKmlData\<close> emits one feature per placemark, the one at this
  placemark's position being a Polygon whose coordinates are the single empty ring.
\<close>

theorem placemark_without_geometry_is_kept:
  assumes "xml2json response = Inr kmlResponse"
    and "JSON_parse kmlResponse = Inr tree"
    and "KMLFileSchema tree = Inr kmlData"
    and "i < length (Placemark (Folder (Document (kml kmlData))))"
    and "Polygon (Placemark (Folder (Document (kml kmlData))) ! i) = None"
    and "MultiGeometry (Placemark (Folder (Document (kml kmlData))) ! i) = None"
  shows "getCoordinateString (Placemark (Folder (Document (kml kmlData))) ! i) = [] \<and>
         (\<exists>fc. snd (parseKmlData xml2json JSON_parse KMLFileSchema response url) = Inr fc \<and>
            length (features fc) = length (Placemark (Folder (Document (kml kmlData)))) \<and>
            feature_id (features fc ! i) = int i \<and>
            feature_type (features fc ! i) = ''Feature'' \<and>
            geometry (features fc ! i) =
              \<lparr>geometry_type = ''Polygon'', geometry_coordinates = [[]]\<rparr>)"
proof -
  let ?pms = "Placemark (Folder (Document (kml kmlData)))"
  let ?fc = "\<lparr>collection_type = ''FeatureCollection'',
              features = map (\<lambda>i. placemarkToFeature i (?pms ! i)) [0..<length ?pms]\<rparr>"
  have g: "getCoordinateString (?pms ! i) = []"
    using assms(5,6) by (simp add: getCoordinateString_def)
  have r: "snd (parseKmlData xml2json JSON_parse KMLFileSchema response url) = Inr ?fc"
    using parseKmlData_valid[of xml2json response kmlResponse JSON_parse tree KMLFileSchema kmlData url]
      assms(1-3) by simp
  have f: "features ?fc ! i = placemarkToFeature i (?pms ! i)"
    using assms(4) by simp
  have "placemarkToFeature i (?pms ! i) =
          \<lparr>feature_type = ''Feature'',
           geometry = \<lparr>geometry_type = ''Polygon'', geometry_coordinates = [[]]\<rparr>,
           feature_id = int i,
           properties = \<lparr>properties_name = placemarkName (?pms ! i)\<rparr>\<rparr>"
    by (simp add: placemarkToFeature_def g parseCoordinates_def)
  hence "feature_id (features ?fc ! i) = int i \<and>
         feature_type (features ?fc ! i) = ''Feature'' \<and>
         geometry (features ?fc ! i) = \<lparr>geometry_type = ''Polygon'', geometry_coordinates = [[]]\<rparr>"
    unfolding f by simp
  moreover have "length (features ?fc) = length ?pms" by simp
  ultimately show ?thesis using g r by (intro conjI exI[of _ ?fc]) simp_all
qed

theorem placemark_without_geometry_is_kept_witness:
  "(0::nat) < length (Placemark (Folder (Document (kml (kmlFile
       [kmlPlacemark (Some ''Zone A'') None,
        kmlPlacemark (Some ''Zone B'') (Some (kmlPolygon ''5,6 7,8 5,6''))]))))) \<and>
   Polygon (Placemark (Folder (Document (kml (kmlFile
       [kmlPlacemark (Some ''Zone A'') None,
        kmlPlacemark (Some ''Zone B'') (Some (kmlPolygon ''5,6 7,8 5,6''))])))) ! 0) = None \<and>
   MultiGeometry (Placemark (Folder (Document (kml (kmlFile
       [kmlPlacemark (Some ''Zone A'') None,
        kmlPlacemark (Some ''Zone B'') (Some (kmlPolygon ''5,6 7,8 5,6''))])))) ! 0) = None \<and>
   (\<exists>fc. snd (parseKmlData (\<lambda>xml. Inr xml) (\<lambda>text. Inr text)
              (\<lambda>tree. Inr (kmlFile
                 [kmlPlacemark (Some ''Zone A'') None,
                  kmlPlacemark (Some ''Zone B'') (Some (kmlPolygon ''5,6 7,8 5,6''))]))
              ''<kml/>'' ''https://example.org/zones.kml'') = Inr fc \<and>
      length (features fc) = 2 \<and>
      geometry (features fc ! 0) = \<lparr>geometry_type = ''Polygon'', geometry_coordinates = [[]]\<rparr>)"
proof -
  let ?file = "kmlFile
       [kmlPlacemark (Some ''Zone A'') None,
        kmlPlacemark (Some ''Zone B'') (Some (kmlPolygon ''5,6 7,8 5,6''))]"
  have a: "(\<lambda>xml. Inr xml :: js_error + string) ''<kml/>'' = Inr ''<kml/>''" by simp
  have b: "(\<lambda>tree :: string. Inr ?file :: KMLFile safe_parse_result) ''<kml/>'' = Inr ?file" by simp
  have l: "(0::nat) < length (Placemark (Folder (Document (kml ?file))))"
    by (simp add: kmlFile_def)
  have len: "length (Placemark (Folder (Document (kml ?file)))) = 2"
    by (simp add: kmlFile_def)
  have p: "Polygon (Placemark (Folder (Document (kml ?file))) ! 0) = None"
    by (simp add: kmlFile_def kmlPlacemark_def)
  have m: "MultiGeometry (Placemark (Folder (Document (kml ?file))) ! 0) = None"
    by (simp add: kmlFile_def kmlPlacemark_def)
  obtain fc where
    "snd (parseKmlData (\<lambda>xml. Inr xml) (\<lambda>text. Inr text) (\<lambda>tree. Inr ?file)
            ''<kml/>'' ''https://example.org/zones.kml'') = Inr fc"
    "length (features fc) = length (Placemark (Folder (Document (kml ?file))))"
    "geometry (features fc ! 0) = \<lparr>geometry_type = ''Polygon'', geometry_coordinates = [[]]\<rparr>"
    using placemark_without_geometry_is_kept[of "\<lambda>xml. Inr xml" "''<kml/>''" "''<kml/>''"
        "\<lambda>text. Inr text" "''<kml/>''" "\<lambda>tree. Inr ?file" ?file 0
        "''https://example.org/zones.kml''", OF a a b l p m]
    by blast
  thus ?thesis using l p m unfolding len by blast
qed

section \<open>Forecast validation\<close>

lemma issuesOf_merge: "issuesOf (merge built member) = issuesOf built @ issuesOf member"
  by (simp add: issuesOf_def merge_def split: sum.splits)

lemma issuesOf_Inl: "issuesOf result \<noteq> [] \<Longrightarrow> result = Inl (issuesOf result)"
  by (cases result) (simp_all add: issuesOf_def)

lemma creation_date_required:
  assumes "map_of mountainWeather ''creation_date'' = None"
  shows "ZodIssue invalid_type (path @ [Key ''creation_date''])
           \<in> set (issuesOf (mountainWeatherForecastSchema (Some (JObject mountainWeather)) path))"
proof -
  have "issuesOf (z_transform utcTimestamp
          (field z_string (map_of mountainWeather) path ''creation_date''))
        = [ZodIssue invalid_type (path @ [Key ''creation_date''])]"
    using assms by (simp add: field_def z_string_def z_transform_def issuesOf_def)
  thus ?thesis
    by (simp add: mountainWeatherForecastSchema_def z_object_def issuesOf_merge)
qed

lemma forecast_creation_date_required:
  assumes "map_of payload ''mountain_weather_forecast'' = Some (JObject mountainWeather)"
    and "map_of mountainWeather ''creation_date'' = None"
  shows "ZodIssue invalid_type (path @ [Key ''mountain_weather_forecast'', Key ''creation_date''])
           \<in> set (issuesOf (nwacWeatherForecastSchema (Some (JObject payload)) path))"
proof -
  have "ZodIssue invalid_type ((path @ [Key ''mountain_weather_forecast'']) @ [Key ''creation_date''])
          \<in> set (issuesOf (field mountainWeatherForecastSchema (map_of payload) path
                              ''mountain_weather_forecast''))"
    unfolding field_def assms(1) using assms(2) by (rule creation_date_required)
  thus ?thesis
    by (simp add: nwacWeatherForecastSchema_def z_object_def issuesOf_merge)
qed

lemma response_creation_date_required:
  assumes "map_of entries ''objects'' = Some (JObject payload)"
    and "map_of payload ''mountain_weather_forecast'' = Some (JObject mountainWeather)"
    and "map_of mountainWeather ''creation_date'' = None"
  shows "ZodIssue invalid_type
           [Key ''objects'', Key ''mountain_weather_forecast'', Key ''creation_date'']
           \<in> set (issuesOf (safeParse nwacWeatherForecastMetaSchema (JObject entries)))"
proof -
  have "ZodIssue invalid_type
          ([Key ''objects''] @ [Key ''mountain_weather_forecast'', Key ''creation_date''])
          \<in> set (issuesOf (field nwacWeatherForecastSchema (map_of entries) [] ''objects''))"
    unfolding field_def assms(1) append_Nil using assms(2,3)
    by (rule forecast_creation_date_required)
  thus ?thesis
    by (simp add: safeParse_def nwacWeatherForecastMetaSchema_def z_object_def issuesOf_merge)
qed

lemma fetch_transport_failure:
  "axios_get (nwacHost @ ''/api/v1/mountain-weather-region-forecast'')
      \<lparr>zone_id = zone, published_datetime = toDateTimeInterfaceATOM requestedTime\<rparr> = Inl rejected \<Longrightarrow>
   fetchNWACWeatherForecast axios_get toDateTimeInterfaceATOM nwacHost zone requestedTime =
     ([], Inl (AxiosError rejected))"
  by (simp add: fetchNWACWeatherForecast_def Let_def)

lemma fetch_validation_failure:
  "axios_get (nwacHost @ ''/api/v1/mountain-weather-region-forecast'')
      \<lparr>zone_id = zone, published_datetime = toDateTimeInterfaceATOM requestedTime\<rparr> = Inr data \<Longrightarrow>
   safeParse nwacWeatherForecastMetaSchema data = Inl error \<Longrightarrow>
   snd (fetchNWACWeatherForecast axios_get toDateTimeInterfaceATOM nwacHost zone requestedTime) =
     Inl (ZodError error)"
  by (simp add: fetchNWACWeatherForecast_def Let_def)

lemma fetch_valid:
  "axios_get (nwacHost @ ''/api/v1/mountain-weather-region-forecast'')
      \<lparr>zone_id = zone, published_datetime = toDateTimeInterfaceATOM requestedTime\<rparr> = Inr data \<Longrightarrow>
   safeParse nwacWeatherForecastMetaSchema data = Inr parsed \<Longrightarrow>
   fetchNWACWeatherForecast axios_get toDateTimeInterfaceATOM nwacHost zone requestedTime =
     ([], Inr (objects parsed))"
  by (simp add: fetchNWACWeatherForecast_def Let_def)

text \<open>
  C3. For a response body that \<open>axios.get\<close> delivered: when the body fails the schema,
  \<open>fetchNWACWeatherForecast\<close> rejects with the ZodError of the schema, which is not an
  AxiosError, and returns no value; a body whose \<open>objects.mountain_weather_forecast\<close>
  has no \<open>creation_date\<close> fails in this way, with an issue at that path; when the body
  passes, the result is the \<open>objects\<close> of the parsed value.
\<close>

theorem fetchNWACWeatherForecast_validates_response:
  assumes "axios_get (nwacHost @ ''/api/v1/mountain-weather-region-forecast'')
             \<lparr>zone_id = zone, published_datetime = toDateTimeInterfaceATOM requestedTime\<rparr> = Inr data"
  shows "(\<forall>error. safeParse nwacWeatherForecastMetaSchema data = Inl error \<longrightarrow>
            snd (fetchNWACWeatherForecast axios_get toDateTimeInterfaceATOM nwacHost zone requestedTime)
              = Inl (ZodError error) \<and>
            (\<forall>rejected. ZodError error \<noteq> AxiosError rejected)) \<and>
         (\<forall>entries payload mountainWeather.
            data = JObject entries \<and>
            map_of entries ''objects'' = Some (JObject payload) \<and>
            map_of payload ''mountain_weather_forecast'' = Some (JObject mountainWeather) \<and>
            map_of mountainWeather ''creation_date'' = None \<longrightarrow>
            (\<exists>error.
               snd (fetchNWACWeatherForecast axios_get toDateTimeInterfaceATOM nwacHost zone requestedTime)
                 = Inl (ZodError error) \<and>
               ZodIssue invalid_type
                 [Key ''objects'', Key ''mountain_weather_forecast'', Key ''creation_date'']
                 \<in> set error)) \<and>
         (\<forall>parsed. safeParse nwacWeatherForecastMetaSchema data = Inr parsed \<longrightarrow>
            fetchNWACWeatherForecast axios_get toDateTimeInterfaceATOM nwacHost zone requestedTime
              = ([], Inr (objects parsed)))"
proof (intro conjI allI impI)
  fix error
  assume "safeParse nwacWeatherForecastMetaSchema data = Inl error"
  thus "snd (fetchNWACWeatherForecast axios_get toDateTimeInterfaceATOM nwacHost zone requestedTime)
              = Inl (ZodError error)"
    using assms by (simp add: fetch_validation_failure)
next
  fix error rejected
  show "ZodError error \<noteq> AxiosError rejected" by simp
next
  fix entries payload mountainWeather
  assume a: "data = JObject entries \<and>
            map_of entries ''objects'' = Some (JObject payload) \<and>
            map_of payload ''mountain_weather_forecast'' = Some (JObject mountainWeather) \<and>
            map_of mountainWeather ''creation_date'' = None"
  let ?issue = "ZodIssue invalid_type
                  [Key ''objects'', Key ''mountain_weather_forecast'', Key ''creation_date'']"
  have m: "?issue \<in> set (issuesOf (safeParse nwacWeatherForecastMetaSchema data))"
    using a response_creation_date_required[of entries payload mountainWeather] by simp
  hence "issuesOf (safeParse nwacWeatherForecastMetaSchema data) \<noteq> []" by auto
  hence "safeParse nwacWeatherForecastMetaSchema data =
           Inl (issuesOf (safeParse nwacWeatherForecastMetaSchema data))"
    by (rule issuesOf_Inl)
  hence "snd (fetchNWACWeatherForecast axios_get toDateTimeInterfaceATOM nwacHost zone requestedTime)
           = Inl (ZodError (issuesOf (safeParse nwacWeatherForecastMetaSchema data)))"
    using assms by (simp add: fetch_validation_failure)
  thus "\<exists>error.
          snd (fetchNWACWeatherForecast axios_get toDateTimeInterfaceATOM nwacHost zone requestedTime)
            = Inl (ZodError error) \<and> ?issue \<in> set error"
    using m by blast
next
  fix parsed
  assume "safeParse nwacWeatherForecastMetaSchema data = Inr parsed"
  thus "fetchNWACWeatherForecast axios_get toDateTimeInterfaceATOM nwacHost zone requestedTime
              = ([], Inr (objects parsed))"
    using assms by (simp add: fetch_valid)
qed

lemmas schema_eval =
  safeParse_def nwacWeatherForecastMetaSchema_def metaSchema_def nwacWeatherForecastSchema_def
  weatherForecastSchema_def ridgelineWindSchema_def snowLevelSchema_def
  precipitationByLocationSchema_def precipitationSchema_def mountainWeatherForecastSchema_def
  forecasterSchema_def temperatureSchema_def z_object_def z_array_def field_def merge_def
  z_string_def z_number_def z_coerce_boolean_def truthy_def z_nativeEnum_def
  z_optional_nullable_def z_transform_def utcTimestamp_def TimeOfDay_def enumerate_eq_zip

lemma sample_response_parses:
  "\<exists>parsed. safeParse nwacWeatherForecastMetaSchema (forecastResponse mountainWeatherEntries)
       = Inr parsed \<and>
     creation_date (mountain_weather_forecast (objects parsed)) = ''2023-01-02T06:30:00+00:00'' \<and>
     afternoon (mountain_weather_forecast (objects parsed)) = False \<and>
     meta_previous (meta parsed) = Undefined \<and>
     map time_of_day (weather_forecasts (objects parsed)) = [''1-morning'']"
  by (simp add: forecastResponse_def mountainWeatherEntries_def schema_eval)

theorem fetchNWACWeatherForecast_validates_response_witness:
  "(\<exists>error.
      snd (fetchNWACWeatherForecast
             (\<lambda>url params. Inr (forecastResponse
                [e \<leftarrow> mountainWeatherEntries. fst e \<noteq> ''creation_date'']))
             (\<lambda>time. time) ''https://nwac.us'' (Finite False 1) ''2023-01-02T08:00:00+00:00'')
        = Inl (ZodError error) \<and>
      ZodIssue invalid_type [Key ''objects'', Key ''mountain_weather_forecast'', Key ''creation_date'']
        \<in> set error) \<and>
   (\<exists>payload.
      snd (fetchNWACWeatherForecast
             (\<lambda>url params. Inr (forecastResponse mountainWeatherEntries))
             (\<lambda>time. time) ''https://nwac.us'' (Finite False 1) ''2023-01-02T08:00:00+00:00'')
        = Inr payload \<and>
      creation_date (mountain_weather_forecast payload) = ''2023-01-02T06:30:00+00:00'')"
proof -
  let ?without = "[e \<leftarrow> mountainWeatherEntries. fst e \<noteq> ''creation_date'']"
  let ?bad = "\<lambda>(url :: string) (params :: js_number ForecastParams).
                (Inr (forecastResponse ?without) :: js_error + json)"
  let ?good = "\<lambda>(url :: string) (params :: js_number ForecastParams).
                (Inr (forecastResponse mountainWeatherEntries) :: js_error + json)"
  let ?time = "''2023-01-02T08:00:00+00:00''"
  obtain entries where e: "forecastResponse ?without = JObject entries"
    and o: "map_of entries ''objects''
              = Some (JObject
                  (case map_of entries ''objects'' of Some (JObject payload) \<Rightarrow> payload | _ \<Rightarrow> []))"
    and m: "map_of (case map_of entries ''objects'' of Some (JObject payload) \<Rightarrow> payload | _ \<Rightarrow> [])
              ''mountain_weather_forecast'' = Some (JObject ?without)"
    by (simp add: forecastResponse_def)
  have c: "map_of ?without ''creation_date'' = None"
    by (simp add: mountainWeatherEntries_def)
  have bad: "\<exists>error.
      snd (fetchNWACWeatherForecast ?bad (\<lambda>time. time) ''https://nwac.us'' (Finite False 1) ?time)
        = Inl (ZodError error) \<and>
      ZodIssue invalid_type [Key ''objects'', Key ''mountain_weather_forecast'', Key ''creation_date'']
        \<in> set error"
    using fetchNWACWeatherForecast_validates_response[of ?bad "''https://nwac.us''" "Finite False 1"
        "\<lambda>time. time" ?time "forecastResponse ?without", OF refl] e o m c
    by blast
  obtain parsed where p: "safeParse nwacWeatherForecastMetaSchema (forecastResponse mountainWeatherEntries)
       = Inr parsed"
    and d: "creation_date (mountain_weather_forecast (objects parsed)) = ''2023-01-02T06:30:00+00:00''"
    using sample_response_parses by blast
  have "fetchNWACWeatherForecast ?good (\<lambda>time. time) ''https://nwac.us'' (Finite False 1) ?time
          = ([], Inr (objects parsed))"
    using fetchNWACWeatherForecast_validates_response[of ?good "''https://nwac.us''" "Finite False 1"
        "\<lambda>time. time" ?time "forecastResponse mountainWeatherEntries", OF refl] p
    by blast
  hence good: "\<exists>payload.
      snd (fetchNWACWeatherForecast ?good (\<lambda>time. time) ''https://nwac.us'' (Finite False 1) ?time)
        = Inr payload \<and>
      creation_date (mountain_weather_forecast payload) = ''2023-01-02T06:30:00+00:00''"
    using d by simp
  show ?thesis using bad good by (rule conjI)
qed

section \<open>Cache horizons\<close>

lemmas options_eval =
  stalenessHorizon_def retentionHorizon_def useNWACWeatherForecast_options_def
  prefetchNWACWeatherForecast_options_def useAlternateObservationZones_options_def
  prefetchAlternateObservationZones_options_def

lemma hour_and_day: "(60 * 60 * 1000 :: enat) = enat 3600000" "(24 * 60 * 60 * 1000 :: enat) = enat 86400000"
  "(5 * 60 * 1000 :: enat) = enat 300000"
  by (simp_all add: numeral_eq_enat)

text \<open>
  C8. In each of the four option records the program builds, the staleness horizon is at
  most the retention horizon: the forecast query has one hour (3600000 ms) and 24 hours
  (86400000 ms); the alternate-zones query has the default 0 and \<open>Infinity\<close>; the
  alternate-zones prefetch has 24 hours and \<open>Infinity\<close>; the forecast prefetch sets
  neither and has the defaults.
\<close>

theorem staleness_within_retention:
  "stalenessHorizon useNWACWeatherForecast_options = enat 3600000 \<and>
   retentionHorizon useNWACWeatherForecast_options = enat 86400000 \<and>
   staleTime useAlternateObservationZones_options = None \<and>
   stalenessHorizon useAlternateObservationZones_options = 0 \<and>
   retentionHorizon useAlternateObservationZones_options = \<infinity> \<and>
   stalenessHorizon prefetchAlternateObservationZones_options = enat 86400000 \<and>
   retentionHorizon prefetchAlternateObservationZones_options = \<infinity> \<and>
   list_all (\<lambda>options. stalenessHorizon options \<le> retentionHorizon options) cacheConfigurations"
  by (simp add: options_eval cacheConfigurations_def hour_and_day)
     (simp add: numeral_eq_enat)

end
